theory Spec2Isabelle
  imports Complex_Main "HOL-Library.Sublist" "HOL-Library.AList"
begin

section \<open>Values shared by the modules\<close>

text \<open>
  The package consists of three modules: \<^verbatim>\<open>observability-index.ts\<close> (the logger, the
  AsyncLocalStorage holding the request context), \<^verbatim>\<open>observability-plugin.ts\<close> (the
  Fastify hooks) and \<^verbatim>\<open>http-client.ts\<close> (the Axios client). Everything the code does to
  a collaborator (logger, meter, span, network, timer, framework callback) is recorded as an
  \<open>event\<close> appended to the trace of the \<open>world\<close>, in program order.

  The sources hold two snapshots of these modules. The later one is the package that
  \<^verbatim>\<open>index.ts\<close> exports (the client imports \<^verbatim>\<open>getMeter\<close> and \<^verbatim>\<open>getRequestContext\<close> from
  \<^verbatim>\<open>./observability-index\<close>, which only the later index module defines); it is the one
  modelled here. What the earlier snapshot does differently for the retry delay, the retry
  condition and the logger is modelled in a section of its own.
\<close>

type_synonym headers = "(string \<times> string) list"

datatype level = Debug | Info | Warn | Err

text \<open>A JavaScript value inside a log object, a label set or a span attribute bag.
  In a label set \<open>Num n\<close> stands for \<^verbatim>\<open>String(n)\<close>.\<close>

datatype fieldval = Str string | Num int | Undefined

type_synonym fields = "(string \<times> fieldval) list"

text \<open>\<^verbatim>\<open>interface RequestContext\<close> of observability-index.ts: the AsyncLocalStorage store.\<close>

record RequestContext =
  correlationId :: "string option"
  traceId :: "string option"
  spanId :: "string option"

text \<open>The span context of OpenTelemetry: what \<^verbatim>\<open>span.spanContext()\<close> returns and what the
  W3C propagator reads and writes.\<close>

record SpanContext =
  sc_traceId :: string
  sc_spanId :: string
  sc_traceFlags :: string
  sc_traceState :: "string option"

datatype SpanStatusCode = UNSET | OK | ERROR

datatype hook = OnRequest | OnResponse | OnError

datatype breaker_state = Closed | Open | HalfOpen

text \<open>The \<^verbatim>\<open>opossum\<close> breaker object that \<^verbatim>\<open>new CircuitBreaker(action, options)\<close> builds: it
  starts closed with empty statistics, and only \<^verbatim>\<open>breaker.fire\<close> feeds it.\<close>

record CircuitBreaker =
  cb_state :: breaker_state
  cb_fires :: nat
  cb_failures :: nat
  cb_timeout :: int
  cb_resetTimeout :: int
  cb_errorThresholdPercentage :: int
  cb_volumeThreshold :: int

datatype event =
    LoggerCall level fields string "RequestContext option"
  | CounterAdd string int fields
  | HistogramRecord string int fields
  | SpanStart nat string fields "SpanContext option"
  | SpanSetStatus nat SpanStatusCode "string option"
  | SpanSetAttribute nat string fieldval
  | SpanRecordException nat string
  | SpanEnd nat
  | ReplyHeader string string
  | NetworkIO headers
  | Sleep rat
  | HookDone hook
  | ResponseSent int

text \<open>
  \<open>LoggerCall l obj msg st\<close> is the call \<^verbatim>\<open>logger.l(obj, msg)\<close> made while the
  AsyncLocalStorage store is \<open>st\<close> (the logger's mixin reads it). \<open>NetworkIO hs\<close> is one
  request put on the wire with headers \<open>hs\<close>; \<open>Sleep d\<close> is a timer of \<open>d\<close> milliseconds.
  The world also holds the clock read by \<^verbatim>\<open>Date.now()\<close>, the store of the running
  code, the span of \<^verbatim>\<open>context.active()\<close>, the source of random identifiers, and the
  breaker objects that exist.
\<close>

record world =
  events :: "event list"
  now :: int
  store :: "RequestContext option"
  activeSpan :: "SpanContext option"
  rng :: "nat \<Rightarrow> string"
  drawn :: nat
  started :: nat
  breakers :: "CircuitBreaker list"

definition emit :: "event \<Rightarrow> world \<Rightarrow> world" where
  "emit e w = w\<lparr>events := events w @ [e]\<rparr>"

definition logger_call :: "level \<Rightarrow> fields \<Rightarrow> string \<Rightarrow> world \<Rightarrow> world" where
  "logger_call l obj msg w = emit (LoggerCall l obj msg (store w)) w"

text \<open>\<^verbatim>\<open>als.run(ctx, fn)\<close>: \<open>fn\<close> runs with the store \<open>ctx\<close>; afterwards the caller sees
  its own store again.\<close>

definition als_run :: "RequestContext \<Rightarrow> (world \<Rightarrow> world) \<Rightarrow> world \<Rightarrow> world" where
  "als_run ctx fn w = (fn (w\<lparr>store := Some ctx\<rparr>))\<lparr>store := store w\<rparr>"

definition getRequestContext :: "world \<Rightarrow> RequestContext option" where
  "getRequestContext w = store w"

text \<open>\<^verbatim>\<open>a || b\<close> on strings: \<open>a\<close> when it is defined and not empty, else \<open>b\<close>.\<close>

definition orElse :: "string option \<Rightarrow> string \<Rightarrow> string" where
  "orElse a b = (case a of None \<Rightarrow> b | Some x \<Rightarrow> if x \<noteq> [] then x else b)"

definition optStr :: "string option \<Rightarrow> fieldval" where
  "optStr s = (case s of None \<Rightarrow> Undefined | Some x \<Rightarrow> Str x)"

definition toUpperCase :: "string \<Rightarrow> string" where
  "toUpperCase s =
     map (\<lambda>c. let n = (of_char c :: nat) in if 97 \<le> n \<and> n \<le> 122 then char_of (n - 32) else c) s"

text \<open>\<^verbatim>\<open>propagation.inject(context.active(), carrier)\<close> with the W3C trace-context
  propagator: an active span writes \<^verbatim>\<open>traceparent\<close> (version, trace id, span id, flags) and,
  when it has one, \<^verbatim>\<open>tracestate\<close>; without an active span the carrier stays empty.\<close>

definition propagation_inject :: "SpanContext option \<Rightarrow> headers" where
  "propagation_inject active =
     (case active of
        None \<Rightarrow> []
      | Some sc \<Rightarrow>
          [(''traceparent'', ''00-'' @ sc_traceId sc @ ''-'' @ sc_spanId sc @ ''-'' @ sc_traceFlags sc)]
          @ (case sc_traceState sc of None \<Rightarrow> [] | Some ts \<Rightarrow> [(''tracestate'', ts)]))"


section \<open>The outbound HTTP client (http-client.ts)\<close>

subsection \<open>Options and Axios values\<close>

record RetryOptions =
  opt_retries :: "int option"
  opt_retryDelay :: "int option"
  opt_retryStatusCodes :: "int list option"

record CircuitBreakerOptions =
  opt_enabled :: "bool option"
  opt_resetTimeout :: "int option"
  opt_errorThresholdPercentage :: "int option"

record HttpClientOptions =
  opt_baseURL :: string
  opt_serviceName :: string
  opt_timeout :: "int option"
  opt_retry :: "RetryOptions option"
  opt_circuitBreaker :: "CircuitBreakerOptions option"
  opt_headers :: "headers option"

datatype AxiosResponse = AxiosResponse (status: int)

record AxiosError =
  response :: "AxiosResponse option"
  message :: string

record AxiosRequestConfig =
  cfg_method :: "string option"
  cfg_url :: string
  cfg_headers :: headers
  cfg_startTime :: "int option"

text \<open>\<^verbatim>\<open>IAxiosRetryConfig\<close>: what the client hands to \<^verbatim>\<open>axiosRetry\<close>.\<close>

record IAxiosRetryConfig =
  rc_retries :: int
  rc_retryDelay :: "int \<Rightarrow> rat"
  rc_retryCondition :: "AxiosError \<Rightarrow> bool"

text \<open>The Axios instance that \<^verbatim>\<open>createHttpClient\<close> returns, with what its interceptors and
  its retry configuration close over.\<close>

record HttpClient =
  baseURL :: string
  serviceName :: string
  timeout :: int
  defaultHeaders :: headers
  axiosRetry :: IAxiosRetryConfig

subsection \<open>Retry configuration\<close>

text \<open>\<^verbatim>\<open>retryDelay: (retryCount) => baseDelay * Math.pow(2, retryCount - 1)\<close> with
  \<^verbatim>\<open>baseDelay = retry.retryDelay ?? 1000\<close>. The power has an integer exponent of either
  sign, so the value is a rational number.\<close>

definition retryDelay :: "RetryOptions \<Rightarrow> int \<Rightarrow> rat" where
  "retryDelay retry retryCount =
     (let baseDelay = (case opt_retryDelay retry of None \<Rightarrow> 1000 | Some d \<Rightarrow> d)
      in of_int baseDelay * 2 powi (retryCount - 1))"

definition defaultRetryStatusCodes :: "int list" where
  "defaultRetryStatusCodes = [408, 429, 500, 502, 503, 504]"

text \<open>\<^verbatim>\<open>retryCondition: (error) => !error.response || retryStatusCodes.includes(status || 0)\<close>.\<close>

definition retryCondition :: "RetryOptions \<Rightarrow> AxiosError \<Rightarrow> bool" where
  "retryCondition retry err =
     (let retryStatusCodes =
            (case opt_retryStatusCodes retry of None \<Rightarrow> defaultRetryStatusCodes | Some cs \<Rightarrow> cs);
          st = map_option status (response err)
      in response err = None
         \<or> (case st of None \<Rightarrow> 0 | Some s \<Rightarrow> if s = 0 then 0 else s) \<in> set retryStatusCodes)"

definition retryConfig :: "RetryOptions \<Rightarrow> IAxiosRetryConfig" where
  "retryConfig retry =
     \<lparr> rc_retries = (case opt_retries retry of None \<Rightarrow> 3 | Some n \<Rightarrow> n),
       rc_retryDelay = retryDelay retry,
       rc_retryCondition = retryCondition retry \<rparr>"

definition emptyRetry :: RetryOptions where
  "emptyRetry = \<lparr> opt_retries = None, opt_retryDelay = None, opt_retryStatusCodes = None \<rparr>"

definition emptyBreaker :: CircuitBreakerOptions where
  "emptyBreaker = \<lparr> opt_enabled = None, opt_resetTimeout = None,
                     opt_errorThresholdPercentage = None \<rparr>"

subsection \<open>Interceptors\<close>

definition setIfTruthy :: "string \<Rightarrow> string option \<Rightarrow> headers \<Rightarrow> headers" where
  "setIfTruthy k v hs =
     (case v of None \<Rightarrow> hs | Some x \<Rightarrow> if x \<noteq> [] then AList.update k x hs else hs)"

definition fullUrl :: "HttpClient \<Rightarrow> AxiosRequestConfig \<Rightarrow> string" where
  "fullUrl client config = baseURL client @ cfg_url config"

definition methodUpper :: "AxiosRequestConfig \<Rightarrow> string option" where
  "methodUpper config = map_option toUpperCase (cfg_method config)"

definition methodLabel :: "AxiosRequestConfig \<Rightarrow> string" where
  "methodLabel config = orElse (methodUpper config) ''GET''"

text \<open>The request interceptor: trace context from \<^verbatim>\<open>context.active()\<close>, correlation id
  from the request context, the start time, and the debug log.\<close>

definition requestInterceptor ::
  "HttpClient \<Rightarrow> AxiosRequestConfig \<Rightarrow> world \<Rightarrow> AxiosRequestConfig \<times> world" where
  "requestInterceptor client config w =
     (let carrier = propagation_inject (activeSpan w);
          h1 = setIfTruthy ''traceparent'' (map_of carrier ''traceparent'') (cfg_headers config);
          h2 = setIfTruthy ''tracestate'' (map_of carrier ''tracestate'') h1;
          reqCtx = getRequestContext w;
          h3 = setIfTruthy ''x-request-id'' (Option.bind reqCtx correlationId) h2;
          config' = config\<lparr>cfg_headers := h3, cfg_startTime := Some (now w)\<rparr>;
          w' = logger_call Debug
                 [(''method'', optStr (methodUpper config')),
                  (''url'', Str (fullUrl client config')),
                  (''targetService'', Str (serviceName client)),
                  (''correlationId'', optStr (Option.bind reqCtx correlationId))]
                 ''Outbound HTTP request'' w
      in (config', w'))"

text \<open>\<^verbatim>\<open>Date.now() - (config.__startTime || Date.now())\<close>.\<close>

definition durationSince :: "AxiosRequestConfig \<Rightarrow> world \<Rightarrow> int" where
  "durationSince config w =
     now w - (case cfg_startTime config of None \<Rightarrow> now w | Some t \<Rightarrow> if t = 0 then now w else t)"

definition clientLabels :: "HttpClient \<Rightarrow> AxiosRequestConfig \<Rightarrow> int \<Rightarrow> fields" where
  "clientLabels client config code =
     [(''target_service'', Str (serviceName client)),
      (''method'', Str (methodLabel config)),
      (''status_code'', Num code)]"

definition responseFulfilled ::
  "HttpClient \<Rightarrow> AxiosRequestConfig \<Rightarrow> AxiosResponse \<Rightarrow> world \<Rightarrow> world" where
  "responseFulfilled client config resp w =
     (let durationMs = durationSince config w;
          reqCtx = getRequestContext w;
          labels = clientLabels client config (status resp);
          w1 = logger_call Debug
                 [(''method'', optStr (methodUpper config)),
                  (''url'', Str (fullUrl client config)),
                  (''targetService'', Str (serviceName client)),
                  (''statusCode'', Num (status resp)),
                  (''durationMs'', Num durationMs),
                  (''correlationId'', optStr (Option.bind reqCtx correlationId))]
                 ''Outbound HTTP response'' w;
          w2 = emit (CounterAdd ''http.client.requests.total'' 1 labels) w1
      in emit (HistogramRecord ''http.client.request.duration'' durationMs labels) w2)"

text \<open>The error branch of the response interceptor. The error of a request that went through
  the request interceptor always carries that request's config.\<close>

definition responseRejected ::
  "HttpClient \<Rightarrow> AxiosRequestConfig \<Rightarrow> AxiosError \<Rightarrow> world \<Rightarrow> world" where
  "responseRejected client config err w =
     (let durationMs = durationSince config w;
          statusCode = (case response err of None \<Rightarrow> 0 | Some r \<Rightarrow> status r);
          reqCtx = getRequestContext w;
          labels = clientLabels client config statusCode;
          w1 = logger_call Err
                 [(''method'', optStr (methodUpper config)),
                  (''url'', Str (fullUrl client config)),
                  (''targetService'', Str (serviceName client)),
                  (''statusCode'', Num statusCode),
                  (''durationMs'', Num durationMs),
                  (''error'', Str (message err)),
                  (''correlationId'', optStr (Option.bind reqCtx correlationId))]
                 ''Outbound HTTP error'' w;
          w2 = emit (CounterAdd ''http.client.requests.total'' 1 labels) w1;
          w3 = emit (HistogramRecord ''http.client.request.duration'' durationMs labels) w2
      in emit (CounterAdd ''http.client.requests.errors'' 1 labels) w3)"

subsection \<open>One attempt and the retry loop\<close>

text \<open>What the network gives back for one attempt: a response with a status code, or none
  (connection failure or timeout). Axios resolves a status in \<open>[200, 300)\<close> and rejects
  everything else (its default \<^verbatim>\<open>validateStatus\<close>).\<close>

datatype wire = Reply int | NoReply

definition settle :: "wire \<Rightarrow> AxiosError + AxiosResponse" where
  "settle r =
     (case r of
        NoReply \<Rightarrow> Inl \<lparr> response = None, message = ''Network Error'' \<rparr>
      | Reply s \<Rightarrow>
          if 200 \<le> s \<and> s < 300 then Inr (AxiosResponse s)
          else Inl \<lparr> response = Some (AxiosResponse s), message = ''Request failed'' \<rparr>)"

text \<open>A target answers the attempt with retry count \<open>n\<close> by \<open>target n\<close>: the outcome and
  the milliseconds it took.\<close>

type_synonym target = "nat \<Rightarrow> wire \<times> int"

definition attempt ::
  "HttpClient \<Rightarrow> target \<Rightarrow> nat \<Rightarrow> AxiosRequestConfig \<Rightarrow> world
     \<Rightarrow> (AxiosError + AxiosResponse) \<times> AxiosRequestConfig \<times> world" where
  "attempt client tgt n config w =
     (let (config1, w1) = requestInterceptor client config w;
          w2 = (emit (NetworkIO (cfg_headers config1)) w1)\<lparr>now := now w1 + snd (tgt n)\<rparr>
      in case settle (fst (tgt n)) of
           Inr resp \<Rightarrow> (Inr resp, config1, responseFulfilled client config1 resp w2)
         | Inl err \<Rightarrow> (Inl err, config1, responseRejected client config1 err w2))"

text \<open>\<^verbatim>\<open>axios-retry\<close>, as configured by \<^verbatim>\<open>axiosRetry(client, retryConfig)\<close>: a rejected
  attempt is retried when the retries made so far are fewer than \<^verbatim>\<open>retries\<close> and
  \<^verbatim>\<open>retryCondition(error)\<close> holds; the count is then incremented, \<^verbatim>\<open>retryDelay\<close> is asked
  for the delay of the incremented count, \<^verbatim>\<open>onRetry\<close> runs, and the request is issued
  again through the whole interceptor chain after the delay. (The library's narrowing of
  the per-request timeout between attempts is not part of this model.)\<close>

definition shouldRetry :: "IAxiosRetryConfig \<Rightarrow> nat \<Rightarrow> AxiosError \<Rightarrow> bool" where
  "shouldRetry rc retryCount err = (int retryCount < rc_retries rc \<and> rc_retryCondition rc err)"

definition onRetry ::
  "HttpClient \<Rightarrow> nat \<Rightarrow> AxiosError \<Rightarrow> AxiosRequestConfig \<Rightarrow> world \<Rightarrow> world" where
  "onRetry client retryCount err requestConfig w =
     logger_call Warn
       [(''retryCount'', Num (int retryCount)),
        (''url'', Str (fullUrl client requestConfig)),
        (''error'', Str (message err)),
        (''targetService'', Str (serviceName client))]
       ''Retrying HTTP request'' w"

definition sleep :: "rat \<Rightarrow> world \<Rightarrow> world" where
  "sleep d w = (emit (Sleep d) w)\<lparr>now := now w + max 0 \<lfloor>d\<rfloor>\<rparr>"

definition beforeRetry ::
  "HttpClient \<Rightarrow> nat \<Rightarrow> AxiosError \<Rightarrow> AxiosRequestConfig \<Rightarrow> world \<Rightarrow> world" where
  "beforeRetry client retryCount err config w =
     sleep (rc_retryDelay (axiosRetry client) (int retryCount))
       (onRetry client retryCount err config w)"

function retry_loop ::
  "HttpClient \<Rightarrow> target \<Rightarrow> nat \<Rightarrow> AxiosRequestConfig \<Rightarrow> world
     \<Rightarrow> (AxiosError + AxiosResponse) \<times> world" where
  "retry_loop client tgt retryCount config w =
     (case attempt client tgt retryCount config w of
        (Inr resp, config', w') \<Rightarrow> (Inr resp, w')
      | (Inl err, config', w') \<Rightarrow>
          if shouldRetry (axiosRetry client) retryCount err
          then retry_loop client tgt (Suc retryCount) config'
                 (beforeRetry client (Suc retryCount) err config' w')
          else (Inl err, w'))"
  by pat_completeness auto
termination
  by (relation "measure (\<lambda>(client, tgt, retryCount, config, w).
                  nat (rc_retries (axiosRetry client) - int retryCount))")
     (auto simp: shouldRetry_def)

declare retry_loop.simps [simp del]

text \<open>\<^verbatim>\<open>client.request(config)\<close>: the instance defaults are merged under the request's own
  headers, then the request runs with retry count 0.\<close>

definition mergeHeaders :: "headers \<Rightarrow> headers \<Rightarrow> headers" where
  "mergeHeaders defaults own = foldl (\<lambda>acc kv. AList.update (fst kv) (snd kv) acc) defaults own"

definition client_request ::
  "HttpClient \<Rightarrow> AxiosRequestConfig \<Rightarrow> target \<Rightarrow> world \<Rightarrow> (AxiosError + AxiosResponse) \<times> world" where
  "client_request client config tgt w =
     retry_loop client tgt 0
       (config\<lparr>cfg_headers := mergeHeaders (defaultHeaders client) (cfg_headers config)\<rparr>) w"

subsection \<open>The factory\<close>

text \<open>\<^verbatim>\<open>createHttpClient(options)\<close>. The breaker is built around \<^verbatim>\<open>client.request\<close> and
  given its listeners, and the function then returns \<^verbatim>\<open>client\<close>: the breaker object exists
  in the world, and no path of the returned client leads to it.\<close>

definition newBreaker :: "int \<Rightarrow> CircuitBreakerOptions \<Rightarrow> CircuitBreaker" where
  "newBreaker tmo cbOptions =
     \<lparr> cb_state = Closed, cb_fires = 0, cb_failures = 0,
       cb_timeout = tmo,
       cb_resetTimeout = (case opt_resetTimeout cbOptions of None \<Rightarrow> 30000 | Some t \<Rightarrow> t),
       cb_errorThresholdPercentage =
         (case opt_errorThresholdPercentage cbOptions of None \<Rightarrow> 50 | Some p \<Rightarrow> p),
       cb_volumeThreshold = 10 \<rparr>"

definition createHttpClient :: "HttpClientOptions \<Rightarrow> world \<Rightarrow> HttpClient \<times> world" where
  "createHttpClient options w =
     (let tmo = (case opt_timeout options of None \<Rightarrow> 30000 | Some t \<Rightarrow> t);
          retry = (case opt_retry options of None \<Rightarrow> emptyRetry | Some r \<Rightarrow> r);
          cbOptions = (case opt_circuitBreaker options of None \<Rightarrow> emptyBreaker | Some c \<Rightarrow> c);
          hdrs = (case opt_headers options of None \<Rightarrow> [] | Some h \<Rightarrow> h);
          client = \<lparr> baseURL = opt_baseURL options,
                     serviceName = opt_serviceName options,
                     timeout = tmo,
                     defaultHeaders = mergeHeaders [(''Content-Type'', ''application/json'')] hdrs,
                     axiosRetry = retryConfig retry \<rparr>
      in if opt_enabled cbOptions = Some False then (client, w)
         else (client, w\<lparr>breakers := breakers w @ [newBreaker tmo cbOptions]\<rparr>))"


section \<open>The Fastify plugin (observability-plugin.ts)\<close>

record PluginOptions =
  po_serviceName :: string
  po_excludeRoutes :: "string list option"

definition excludeRoutes :: "PluginOptions \<Rightarrow> string list" where
  "excludeRoutes options =
     (case po_excludeRoutes options of None \<Rightarrow> [''/health'', ''/health/''] | Some rs \<Rightarrow> rs)"

text \<open>\<^verbatim>\<open>interface RequestContext\<close> of the plugin: what it keeps on the request object.\<close>

record PluginRequestContext =
  ctx_correlationId :: string
  ctx_traceId :: string
  ctx_spanId :: string
  ctx_startTime :: int

record Span =
  span_handle :: nat
  span_context :: SpanContext

record FastifyRequest =
  req_method :: string
  req_url :: string
  req_routeUrl :: "string option"
  req_headers :: headers
  req_span :: "Span option"
  req_requestContext :: "PluginRequestContext option"

subsection \<open>Collaborators: identifiers, propagator, tracer\<close>

definition randomUUID :: "world \<Rightarrow> string \<times> world" where
  "randomUUID w = (rng w (drawn w), w\<lparr>drawn := Suc (drawn w)\<rparr>)"

fun splitOn :: "char \<Rightarrow> string \<Rightarrow> string list" where
  "splitOn c [] = [[]]"
| "splitOn c (x # xs) =
     (if x = c then [] # splitOn c xs
      else (case splitOn c xs of [] \<Rightarrow> [[x]] | y # ys \<Rightarrow> (x # y) # ys))"

text \<open>The \<^verbatim>\<open>traceparent\<close> field: version, trace id, parent span id and flags, separated
  by dashes.\<close>

definition parseTraceParent :: "string \<Rightarrow> SpanContext option" where
  "parseTraceParent s =
     (case splitOn CHR ''-'' s of
        [ver, tid, sid, flags] \<Rightarrow>
          Some \<lparr> sc_traceId = tid, sc_spanId = sid, sc_traceFlags = flags, sc_traceState = None \<rparr>
      | _ \<Rightarrow> None)"

text \<open>\<^verbatim>\<open>propagation.extract(context.active(), request.headers)\<close>: the span context of a
  well-formed \<^verbatim>\<open>traceparent\<close> header becomes the parent; otherwise the active context is
  returned as it is.\<close>

definition propagation_extract :: "SpanContext option \<Rightarrow> headers \<Rightarrow> SpanContext option" where
  "propagation_extract active hs =
     (case map_of hs ''traceparent'' of
        None \<Rightarrow> active
      | Some tp \<Rightarrow>
          (case parseTraceParent tp of
             None \<Rightarrow> active
           | Some sc \<Rightarrow> Some (sc\<lparr>sc_traceState := map_of hs ''tracestate''\<rparr>)))"

text \<open>\<^verbatim>\<open>tracer.startSpan(name, options, parentContext)\<close>: the new span continues the
  parent's trace, or starts a trace of its own; it is not made the active span.\<close>

definition startSpan :: "string \<Rightarrow> fields \<Rightarrow> SpanContext option \<Rightarrow> world \<Rightarrow> Span \<times> world" where
  "startSpan name attrs parent w =
     (let h = started w;
          sc = (case parent of
                  None \<Rightarrow> \<lparr> sc_traceId = rng w (drawn w), sc_spanId = rng w (Suc (drawn w)),
                             sc_traceFlags = ''01'', sc_traceState = None \<rparr>
                | Some p \<Rightarrow> p\<lparr>sc_spanId := rng w (Suc (drawn w))\<rparr>);
          w' = emit (SpanStart h name attrs parent) (w\<lparr>started := Suc h, drawn := drawn w + 2\<rparr>)
      in (\<lparr> span_handle = h, span_context = sc \<rparr>, w'))"

subsection \<open>The hooks\<close>

definition isExcluded :: "PluginOptions \<Rightarrow> FastifyRequest \<Rightarrow> bool" where
  "isExcluded options request =
     list_ex (\<lambda>route. prefix route (req_url request)) (excludeRoutes options)"

definition storeOf :: "string \<Rightarrow> string \<Rightarrow> string \<Rightarrow> RequestContext" where
  "storeOf c t s = \<lparr> correlationId = Some c, traceId = Some t, spanId = Some s \<rparr>"

text \<open>\<^verbatim>\<open>onRequest\<close>. The argument \<open>dn\<close> is what the framework does when the hook calls
  \<^verbatim>\<open>done()\<close>: the rest of the request up to the end of the handler. For a request that is
  not excluded it runs inside \<^verbatim>\<open>als.run\<close>.\<close>

definition onRequest ::
  "PluginOptions \<Rightarrow> FastifyRequest \<Rightarrow> (world \<Rightarrow> world) \<Rightarrow> world \<Rightarrow> FastifyRequest \<times> world" where
  "onRequest options request dn w =
     (if isExcluded options request then (request, dn (emit (HookDone OnRequest) w))
      else
        let (cid, w1) = (case map_of (req_headers request) ''x-request-id'' of
                           None \<Rightarrow> randomUUID w
                         | Some x \<Rightarrow> if x \<noteq> [] then (x, w) else randomUUID w);
            w2 = emit (ReplyHeader ''x-request-id'' cid) w1;
            parentContext = propagation_extract (activeSpan w2) (req_headers request);
            route = orElse (req_routeUrl request) (req_url request);
            (sp, w3) = startSpan (req_method request @ '' '' @ route)
                           [(''http.method'', Str (req_method request)),
                            (''http.url'', Str (req_url request)),
                            (''http.route'', Str route),
                            (''http.user_agent'', Str (orElse (map_of (req_headers request) ''user-agent'') [])),
                            (''http.correlation_id'', Str cid)]
                           parentContext w2;
            tid = sc_traceId (span_context sp);
            sid = sc_spanId (span_context sp);
            requestContext = \<lparr> ctx_correlationId = cid, ctx_traceId = tid, ctx_spanId = sid,
                               ctx_startTime = now w3 \<rparr>;
            request' = request\<lparr>req_span := Some sp, req_requestContext := Some requestContext\<rparr>
        in (request',
            als_run (storeOf cid tid sid)
              (\<lambda>v. dn (emit (HookDone OnRequest)
                     (logger_call Info
                        [(''correlationId'', Str cid), (''traceId'', Str tid), (''spanId'', Str sid),
                         (''method'', Str (req_method request)), (''url'', Str (req_url request)),
                         (''route'', optStr (req_routeUrl request)),
                         (''userAgent'', optStr (map_of (req_headers request) ''user-agent''))]
                        ''Request received'' v)))
              w3))"

definition serverLabels :: "FastifyRequest \<Rightarrow> int \<Rightarrow> fields" where
  "serverLabels request statusCode =
     [(''method'', Str (req_method request)),
      (''route'', Str (orElse (req_routeUrl request) (req_url request))),
      (''status_code'', Num statusCode)]"

definition endSpan :: "Span option \<Rightarrow> int \<Rightarrow> int \<Rightarrow> world \<Rightarrow> world" where
  "endSpan sp0 statusCode durationMs w =
     (case sp0 of
        None \<Rightarrow> w
      | Some sp \<Rightarrow>
          emit (SpanEnd (span_handle sp))
            (emit (SpanSetAttribute (span_handle sp) ''http.response_time_ms'' (Num durationMs))
              (emit (SpanSetAttribute (span_handle sp) ''http.status_code'' (Num statusCode))
                (emit (SpanSetStatus (span_handle sp) (if statusCode < 400 then OK else ERROR) None) w))))"

text \<open>\<^verbatim>\<open>onResponse\<close>, with \<^verbatim>\<open>reply.statusCode\<close> as its third argument.\<close>

definition onResponse :: "PluginOptions \<Rightarrow> FastifyRequest \<Rightarrow> int \<Rightarrow> world \<Rightarrow> world" where
  "onResponse options request statusCode w =
     (case req_requestContext request of
        None \<Rightarrow> emit (HookDone OnResponse) w
      | Some ctx \<Rightarrow>
          let durationMs = now w - ctx_startTime ctx;
              labels = serverLabels request statusCode
          in als_run (storeOf (ctx_correlationId ctx) (ctx_traceId ctx) (ctx_spanId ctx))
               (\<lambda>v. let v1 = logger_call Info
                              [(''correlationId'', Str (ctx_correlationId ctx)),
                               (''traceId'', Str (ctx_traceId ctx)),
                               (''spanId'', Str (ctx_spanId ctx)),
                               (''method'', Str (req_method request)),
                               (''url'', Str (req_url request)),
                               (''route'', Str (orElse (req_routeUrl request) (req_url request))),
                               (''statusCode'', Num statusCode),
                               (''durationMs'', Num durationMs)]
                              ''Request completed'' v;
                         v2 = emit (CounterAdd ''http.server.requests.total'' 1 labels) v1;
                         v3 = emit (HistogramRecord ''http.server.request.duration'' durationMs labels) v2;
                         v4 = (if statusCode \<ge> 400
                               then emit (CounterAdd ''http.server.requests.errors'' 1 labels) v3
                               else v3);
                         v5 = endSpan (req_span request) statusCode durationMs v4
                     in emit (HookDone OnResponse) v5)
               w)"

text \<open>\<^verbatim>\<open>onError\<close>, with \<^verbatim>\<open>error.message\<close> as its third argument; the \<^verbatim>\<open>stack\<close> field of
  the log object is left out.\<close>

definition onError :: "PluginOptions \<Rightarrow> FastifyRequest \<Rightarrow> string \<Rightarrow> world \<Rightarrow> world" where
  "onError options request msg w =
     (case req_requestContext request of
        None \<Rightarrow> emit (HookDone OnError) w
      | Some ctx \<Rightarrow>
          als_run (storeOf (ctx_correlationId ctx) (ctx_traceId ctx) (ctx_spanId ctx))
            (\<lambda>v. let v1 = logger_call Err
                           [(''correlationId'', Str (ctx_correlationId ctx)),
                            (''traceId'', Str (ctx_traceId ctx)),
                            (''spanId'', Str (ctx_spanId ctx)),
                            (''method'', Str (req_method request)),
                            (''url'', Str (req_url request)),
                            (''error'', Str msg)]
                           ''Request failed'' v;
                      v2 = (case req_span request of
                              None \<Rightarrow> v1
                            | Some sp \<Rightarrow>
                                emit (SpanRecordException (span_handle sp) msg)
                                  (emit (SpanSetStatus (span_handle sp) ERROR (Some msg)) v1))
                  in emit (HookDone OnError) v2)
            w)"

subsection \<open>The request lifecycle of the framework\<close>

text \<open>
  Fastify runs the \<^verbatim>\<open>onRequest\<close> hooks, then the route handler; when the handler raised,
  the \<^verbatim>\<open>onError\<close> hooks run before the error reply; once a reply has been sent the
  \<^verbatim>\<open>onResponse\<close> hooks run. A handler is the list of what it does (outbound calls through
  a client, whose failures it handles itself, and local work that takes time) and how it ends:
  with a reply of some status, or by raising an error that the framework answers with some
  status. The handler runs in the asynchronous context of the \<^verbatim>\<open>done()\<close> call of
  \<^verbatim>\<open>onRequest\<close>, which is what AsyncLocalStorage propagates to.
\<close>

datatype step = Outbound HttpClient AxiosRequestConfig target | Work int

datatype handler_end = Replies int | Throws string int

type_synonym handler = "step list \<times> handler_end"

fun run_steps :: "step list \<Rightarrow> world \<Rightarrow> world" where
  "run_steps [] w = w"
| "run_steps (Outbound client config tgt # rest) w =
     run_steps rest (snd (client_request client config tgt w))"
| "run_steps (Work ms # rest) w = run_steps rest (w\<lparr>now := now w + ms\<rparr>)"

definition handleRequest :: "PluginOptions \<Rightarrow> FastifyRequest \<Rightarrow> handler \<Rightarrow> world \<Rightarrow> world" where
  "handleRequest options request h w =
     (let (request', w1) = onRequest options request (run_steps (fst h)) w
      in case snd h of
           Replies statusCode \<Rightarrow>
             onResponse options request' statusCode (emit (ResponseSent statusCode) w1)
         | Throws msg statusCode \<Rightarrow>
             onResponse options request' statusCode
               (emit (ResponseSent statusCode) (onError options request' msg w1)))"


section \<open>The logger (observability-index.ts)\<close>

text \<open>The module state: \<^verbatim>\<open>baseLogger\<close> is declared without a value and assigned by
  \<^verbatim>\<open>init\<close>; \<open>written\<close> is what has been handed to the Pino logger.\<close>

datatype js_error = TypeError string

record pino =
  pino_level :: level

record module_state =
  baseLogger :: "pino option"
  initialized :: bool
  written :: "(level \<times> fields \<times> string option) list"

definition module0 :: module_state where
  "module0 = \<lparr> baseLogger = None, initialized = False, written = [] \<rparr>"

fun rank :: "level \<Rightarrow> nat" where
  "rank Debug = 20"
| "rank Info = 30"
| "rank Warn = 40"
| "rank Err = 50"

text \<open>A Pino logger writes a line when the method's level is at least its own.\<close>

definition pino_write ::
  "pino \<Rightarrow> level \<Rightarrow> fields \<Rightarrow> string option \<Rightarrow> module_state \<Rightarrow> module_state" where
  "pino_write p l obj msg m =
     (if rank (pino_level p) \<le> rank l then m\<lparr>written := written m @ [(l, obj, msg)]\<rparr> else m)"

text \<open>\<^verbatim>\<open>info: (obj, msg) => baseLogger?.info(obj, msg)\<close> and its three siblings.\<close>

definition logger_info :: "module_state \<Rightarrow> fields \<Rightarrow> string option \<Rightarrow> js_error + module_state" where
  "logger_info m obj msg =
     (case baseLogger m of None \<Rightarrow> Inr m | Some p \<Rightarrow> Inr (pino_write p Info obj msg m))"

definition logger_error :: "module_state \<Rightarrow> fields \<Rightarrow> string option \<Rightarrow> js_error + module_state" where
  "logger_error m obj msg =
     (case baseLogger m of None \<Rightarrow> Inr m | Some p \<Rightarrow> Inr (pino_write p Err obj msg m))"

definition logger_warn :: "module_state \<Rightarrow> fields \<Rightarrow> string option \<Rightarrow> js_error + module_state" where
  "logger_warn m obj msg =
     (case baseLogger m of None \<Rightarrow> Inr m | Some p \<Rightarrow> Inr (pino_write p Warn obj msg m))"

definition logger_debug :: "module_state \<Rightarrow> fields \<Rightarrow> string option \<Rightarrow> js_error + module_state" where
  "logger_debug m obj msg =
     (case baseLogger m of None \<Rightarrow> Inr m | Some p \<Rightarrow> Inr (pino_write p Debug obj msg m))"

text \<open>\<^verbatim>\<open>init(options)\<close>, as far as the logger goes: a second call is skipped; the first one
  builds the Pino logger at \<^verbatim>\<open>logLevel\<close> (default \<^verbatim>\<open>info\<close>), writes the start-up line
  through it and sets \<^verbatim>\<open>initialized\<close>.\<close>

definition init :: "level option \<Rightarrow> module_state \<Rightarrow> module_state" where
  "init logLevel m =
     (if initialized m then m
      else
        let p = \<lparr> pino_level = (case logLevel of None \<Rightarrow> Info | Some l \<Rightarrow> l) \<rparr>;
            m1 = m\<lparr>baseLogger := Some p\<rparr>;
            m2 = pino_write p Info [] (Some ''OpenTelemetry initialized. Sending to OTEL Collector.'') m1
        in m2\<lparr>initialized := True\<rparr>)"

text \<open>A program that has not called \<^verbatim>\<open>init\<close> can only call the logger's methods.\<close>

datatype logger_op =
    CallInfo fields "string option"
  | CallError fields "string option"
  | CallWarn fields "string option"
  | CallDebug fields "string option"

fun logger_apply :: "logger_op \<Rightarrow> module_state \<Rightarrow> js_error + module_state" where
  "logger_apply (CallInfo obj msg) m = logger_info m obj msg"
| "logger_apply (CallError obj msg) m = logger_error m obj msg"
| "logger_apply (CallWarn obj msg) m = logger_warn m obj msg"
| "logger_apply (CallDebug obj msg) m = logger_debug m obj msg"

fun logger_run :: "logger_op list \<Rightarrow> module_state \<Rightarrow> js_error + module_state" where
  "logger_run [] m = Inr m"
| "logger_run (c # cs) m =
     (case logger_apply c m of Inl e \<Rightarrow> Inl e | Inr m' \<Rightarrow> logger_run cs m')"


section \<open>The earlier snapshot of the client and the logger\<close>

text \<open>
  The first \<^verbatim>\<open>createHttpClient\<close> of http-client.ts configures
  \<^verbatim>\<open>retryDelay: (count) => count * (retry.delay ?? 1000)\<close> and
  \<^verbatim>\<open>retryCondition: (error) => error.response?.status! >= 500 || !error.response\<close>; the
  logger of observability-index.ts calls \<^verbatim>\<open>baseLogger.info(obj, msg)\<close> and its siblings
  without a guard. It builds its breaker the same way as the later one and returns the client.
\<close>

record RetryOptions_v1 =
  v1_retries :: "int option"
  v1_delay :: "int option"

definition retryDelay_v1 :: "RetryOptions_v1 \<Rightarrow> int \<Rightarrow> int" where
  "retryDelay_v1 retry count = count * (case v1_delay retry of None \<Rightarrow> 1000 | Some d \<Rightarrow> d)"

definition retryCondition_v1 :: "AxiosError \<Rightarrow> bool" where
  "retryCondition_v1 err =
     ((case response err of None \<Rightarrow> False | Some r \<Rightarrow> 500 \<le> status r) \<or> response err = None)"

definition logger_v1 ::
  "level \<Rightarrow> module_state \<Rightarrow> fields \<Rightarrow> string option \<Rightarrow> js_error + module_state" where
  "logger_v1 l m obj msg =
     (case baseLogger m of
        None \<Rightarrow> Inl (TypeError ''Cannot read properties of undefined'')
      | Some p \<Rightarrow> Inr (pino_write p l obj msg m))"


section \<open>Observations on a trace, and sample inputs\<close>

fun isNetworkIO :: "event \<Rightarrow> bool" where
  "isNetworkIO (NetworkIO hs) = True"
| "isNetworkIO _ = False"

text \<open>The number of requests put on the wire so far.\<close>

definition attempts :: "world \<Rightarrow> nat" where
  "attempts w = length (filter isNetworkIO (events w))"

fun sleepOf :: "event \<Rightarrow> rat list" where
  "sleepOf (Sleep d) = [d]"
| "sleepOf _ = []"

text \<open>The backoff delays waited so far, in order.\<close>

definition sleeps :: "world \<Rightarrow> rat list" where
  "sleeps w = concat (map sleepOf (events w))"

text \<open>The events that the client produces: its four log messages, its three instruments,
  the network and the retry timer.\<close>

fun clientEvent :: "event \<Rightarrow> bool" where
  "clientEvent (LoggerCall l obj msg st) =
     (msg = ''Outbound HTTP request'' \<or> msg = ''Outbound HTTP response''
      \<or> msg = ''Outbound HTTP error'' \<or> msg = ''Retrying HTTP request'')"
| "clientEvent (CounterAdd name v labels) =
     (name = ''http.client.requests.total'' \<or> name = ''http.client.requests.errors'')"
| "clientEvent (HistogramRecord name v labels) = (name = ''http.client.request.duration'')"
| "clientEvent (NetworkIO hs) = True"
| "clientEvent (Sleep d) = True"
| "clientEvent _ = False"

text \<open>\<open>extends w w'\<close>: \<open>w'\<close> is \<open>w\<close> after client events only; the store, the active span,
  the breakers and the identifier supply are as before.\<close>

definition extends :: "world \<Rightarrow> world \<Rightarrow> bool" where
  "extends w w' =
     ((\<exists>es. events w' = events w @ es \<and> list_all clientEvent es)
      \<and> store w' = store w \<and> activeSpan w' = activeSpan w \<and> breakers w' = breakers w
      \<and> started w' = started w \<and> drawn w' = drawn w \<and> rng w' = rng w)"

definition world0 :: world where
  "world0 = \<lparr> events = [], now = 0, store = None, activeSpan = None,
              rng = (\<lambda>n. ''generated''), drawn = 0, started = 0, breakers = [] \<rparr>"

text \<open>A target that answers every attempt at once with the same status.\<close>

definition always :: "int \<Rightarrow> target" where
  "always s = (\<lambda>n. (Reply s, 0))"

definition sampleOptions :: HttpClientOptions where
  "sampleOptions = \<lparr> opt_baseURL = ''http://auth:3000'', opt_serviceName = ''auth-service'',
                      opt_timeout = None, opt_retry = None, opt_circuitBreaker = None,
                      opt_headers = None \<rparr>"

definition sampleConfig :: AxiosRequestConfig where
  "sampleConfig = \<lparr> cfg_method = Some ''get'', cfg_url = ''/validate'', cfg_headers = [],
                     cfg_startTime = None \<rparr>"


text \<open>The retry options in force: \<^verbatim>\<open>retry = {}\<close> when the caller gave none.\<close>

definition retryOf :: "HttpClientOptions \<Rightarrow> RetryOptions" where
  "retryOf options = (case opt_retry options of None \<Rightarrow> emptyRetry | Some r \<Rightarrow> r)"

text \<open>Build a client and make one call through it.\<close>

definition callThrough ::
  "HttpClientOptions \<Rightarrow> AxiosRequestConfig \<Rightarrow> target \<Rightarrow> world
     \<Rightarrow> (AxiosError + AxiosResponse) \<times> world" where
  "callThrough options config tgt w =
     (let (client, w1) = createHttpClient options w in client_request client config tgt w1)"

text \<open>The error Axios raises for a response with status 503.\<close>

definition failed503 :: AxiosError where
  "failed503 = \<lparr> response = Some (AxiosResponse 503), message = ''Request failed'' \<rparr>"


fun wireOf :: "event \<Rightarrow> headers list" where
  "wireOf (NetworkIO hs) = [hs]"
| "wireOf _ = []"

text \<open>The header sets of the requests put on the wire so far.\<close>

definition wireHeaders :: "world \<Rightarrow> headers list" where
  "wireHeaders w = concat (map wireOf (events w))"

text \<open>\<open>k\<close> calls through one client, one after the other.\<close>

fun calls :: "nat \<Rightarrow> HttpClient \<Rightarrow> AxiosRequestConfig \<Rightarrow> target \<Rightarrow> world \<Rightarrow> world" where
  "calls 0 client config tgt w = w"
| "calls (Suc k) client config tgt w =
     calls k client config tgt (snd (client_request client config tgt w))"

text \<open>The world in which every breaker has been put into the open state.\<close>

definition openAll :: "world \<Rightarrow> world" where
  "openAll w = w\<lparr>breakers := map (\<lambda>b. b\<lparr>cb_state := Open\<rparr>) (breakers w)\<rparr>"

definition failed404 :: AxiosError where
  "failed404 = \<lparr> response = Some (AxiosResponse 404), message = ''Request failed'' \<rparr>"

definition sampleSpan :: SpanContext where
  "sampleSpan = \<lparr> sc_traceId = ''0af7651916cd43dd8448eb211c80319c'',
                  sc_spanId = ''b7ad6b7169203331'', sc_traceFlags = ''01'',
                  sc_traceState = None \<rparr>"

definition sampleClient :: HttpClient where
  "sampleClient = fst (createHttpClient sampleOptions world0)"

text \<open>The world after the sample client has been built and ten calls to a target that
  always answers 503 have failed.\<close>

definition tenFailures :: world where
  "tenFailures = calls 10 sampleClient sampleConfig (always 503)
                   (snd (createHttpClient sampleOptions world0))"


text \<open>Projections of the trace: what a list of events says about one concern.\<close>

definition project :: "(event \<Rightarrow> 'a list) \<Rightarrow> world \<Rightarrow> 'a list" where
  "project f w = concat (map f (events w))"

fun terminalOf :: "event \<Rightarrow> string list" where
  "terminalOf (LoggerCall l obj msg st) =
     (if msg = ''Request completed'' \<or> msg = ''Request failed'' then [msg] else [])"
| "terminalOf _ = []"

fun spanStartOf :: "event \<Rightarrow> nat list" where
  "spanStartOf (SpanStart h name attrs parent) = [h]"
| "spanStartOf _ = []"

fun spanEndOf :: "event \<Rightarrow> nat list" where
  "spanEndOf (SpanEnd h) = [h]"
| "spanEndOf _ = []"

fun serverSignalOf :: "event \<Rightarrow> event list" where
  "serverSignalOf (SpanStart h name attrs parent) = [SpanStart h name attrs parent]"
| "serverSignalOf (SpanSetStatus h c m) = [SpanSetStatus h c m]"
| "serverSignalOf (SpanSetAttribute h k v) = [SpanSetAttribute h k v]"
| "serverSignalOf (SpanRecordException h m) = [SpanRecordException h m]"
| "serverSignalOf (SpanEnd h) = [SpanEnd h]"
| "serverSignalOf (CounterAdd name v labels) =
     (if name = ''http.server.requests.total'' \<or> name = ''http.server.requests.errors''
      then [CounterAdd name v labels] else [])"
| "serverSignalOf (HistogramRecord name v labels) =
     (if name = ''http.server.request.duration'' then [HistogramRecord name v labels] else [])"
| "serverSignalOf _ = []"

definition terminalEvents :: "world \<Rightarrow> string list" where
  "terminalEvents w = project terminalOf w"

definition spansOpened :: "world \<Rightarrow> nat list" where
  "spansOpened w = project spanStartOf w"

definition spanEnds :: "world \<Rightarrow> nat list" where
  "spanEnds w = project spanEndOf w"

definition serverSignals :: "world \<Rightarrow> event list" where
  "serverSignals w = project serverSignalOf w"

text \<open>What the framework and the hooks add after the handler of a request for which the
  plugin keeps no context: the error hook's \<^verbatim>\<open>done()\<close> when the handler raised, the reply,
  and the response hook's \<^verbatim>\<open>done()\<close>.\<close>

definition afterHandler :: "handler_end \<Rightarrow> world \<Rightarrow> world" where
  "afterHandler e w =
     (case e of
        Replies statusCode \<Rightarrow> emit (HookDone OnResponse) (emit (ResponseSent statusCode) w)
      | Throws msg statusCode \<Rightarrow>
          emit (HookDone OnResponse) (emit (ResponseSent statusCode) (emit (HookDone OnError) w)))"

text \<open>The terminal log messages of one request that is not excluded.\<close>

definition terminalAfter :: "handler_end \<Rightarrow> string list" where
  "terminalAfter e =
     (case e of
        Replies statusCode \<Rightarrow> [''Request completed'']
      | Throws msg statusCode \<Rightarrow> [''Request failed'', ''Request completed''])"

definition defaultPlugin :: PluginOptions where
  "defaultPlugin = \<lparr> po_serviceName = ''canvas-weaver'', po_excludeRoutes = None \<rparr>"

definition inboundHeaders :: headers where
  "inboundHeaders = [(''traceparent'', ''00-0af7651916cd43dd8448eb211c80319c-b7ad6b7169203331-01''),
                     (''x-request-id'', ''req-1'')]"

definition healthRequest :: FastifyRequest where
  "healthRequest = \<lparr> req_method = ''GET'', req_url = ''/health'', req_routeUrl = Some ''/health'',
                      req_headers = inboundHeaders, req_span = None, req_requestContext = None \<rparr>"

definition reportRequest :: FastifyRequest where
  "reportRequest = \<lparr> req_method = ''GET'', req_url = ''/api/v1/reports'',
                      req_routeUrl = Some ''/api/v1/reports'',
                      req_headers = inboundHeaders, req_span = None, req_requestContext = None \<rparr>"

definition sampleHandler :: handler where
  "sampleHandler = ([Outbound sampleClient sampleConfig (always 200)], Replies 200)"

definition failingHandler :: handler where
  "failingHandler = ([], Throws ''boom'' 500)"


text \<open>The \<^verbatim>\<open>traceparent\<close> value of a span context.\<close>

definition traceparentOf :: "SpanContext \<Rightarrow> string" where
  "traceparentOf sc = ''00-'' @ sc_traceId sc @ ''-'' @ sc_spanId sc @ ''-'' @ sc_traceFlags sc"

text \<open>\<open>carries s a hs\<close>: the header set \<open>hs\<close> has the correlation id of the store \<open>s\<close>
  (when it has one that is not empty) and the \<^verbatim>\<open>traceparent\<close> of the active span \<open>a\<close> (when there
  is one).\<close>

definition carries :: "RequestContext option \<Rightarrow> SpanContext option \<Rightarrow> headers \<Rightarrow> bool" where
  "carries s a hs =
     ((case Option.bind s correlationId of
         None \<Rightarrow> True
       | Some rid \<Rightarrow> rid = [] \<or> map_of hs ''x-request-id'' = Some rid)
      \<and> (case a of None \<Rightarrow> True | Some sc \<Rightarrow> map_of hs ''traceparent'' = Some (traceparentOf sc)))"


section \<open>Properties\<close>

subsection \<open>Basic facts about the trace\<close>

lemma emit_fields [simp]:
  "events (emit e w) = events w @ [e]" "now (emit e w) = now w" "store (emit e w) = store w"
  "activeSpan (emit e w) = activeSpan w" "breakers (emit e w) = breakers w"
  "started (emit e w) = started w" "drawn (emit e w) = drawn w" "rng (emit e w) = rng w"
  by (simp_all add: emit_def)

lemma logger_call_fields [simp]:
  "events (logger_call l obj msg w) = events w @ [LoggerCall l obj msg (store w)]"
  "now (logger_call l obj msg w) = now w" "store (logger_call l obj msg w) = store w"
  "activeSpan (logger_call l obj msg w) = activeSpan w"
  "breakers (logger_call l obj msg w) = breakers w"
  "started (logger_call l obj msg w) = started w" "drawn (logger_call l obj msg w) = drawn w"
  "rng (logger_call l obj msg w) = rng w"
  by (simp_all add: logger_call_def)

lemma extends_refl [simp]: "extends w w"
  by (simp add: extends_def)

lemma extends_trans: "extends a b \<Longrightarrow> extends b c \<Longrightarrow> extends a c"
  by (auto simp: extends_def)

lemma attempts_mono: "extends w w' \<Longrightarrow> attempts w \<le> attempts w'"
  by (auto simp: extends_def attempts_def)

subsection \<open>What a call through the client does to the world\<close>

lemma extends_requestInterceptor: "extends w (snd (requestInterceptor client config w))"
  by (simp add: requestInterceptor_def extends_def Let_def)

lemma extends_responseFulfilled: "extends w (responseFulfilled client config resp w)"
  by (simp add: responseFulfilled_def extends_def Let_def)

lemma extends_responseRejected: "extends w (responseRejected client config err w)"
  by (simp add: responseRejected_def extends_def Let_def)

lemma extends_attempt: "extends w (snd (snd (attempt client tgt n config w)))"
  by (simp add: attempt_def requestInterceptor_def responseFulfilled_def responseRejected_def extends_def Let_def split: sum.splits prod.splits)

lemma extends_beforeRetry: "extends w (beforeRetry client n err config w)"
  by (simp add: beforeRetry_def sleep_def onRetry_def extends_def)

lemma extends_retry_loop: "extends w (snd (retry_loop client tgt n config w))"
proof (induction client tgt n config w rule: retry_loop.induct)
  case (1 client tgt retryCount config w)
  obtain r config' w' where a: "attempt client tgt retryCount config w = (r, config', w')"
    by (cases "attempt client tgt retryCount config w") auto
  have e1: "extends w w'" using extends_attempt [of w client tgt retryCount config] a by simp
  show ?case
  proof (cases r)
    case (Inr resp)
    then show ?thesis using a e1 by (simp add: retry_loop.simps)
  next
    case (Inl err)
    show ?thesis
    proof (cases "shouldRetry (axiosRetry client) retryCount err")
      case True
      have "extends (beforeRetry client (Suc retryCount) err config' w')
              (snd (retry_loop client tgt (Suc retryCount) config' (beforeRetry client (Suc retryCount) err config' w')))"
        using "1.IH" [OF a [symmetric] _ _ True] Inl by simp
      then have "extends w (snd (retry_loop client tgt (Suc retryCount) config' (beforeRetry client (Suc retryCount) err config' w')))"
        using e1 extends_beforeRetry extends_trans by blast
      then show ?thesis using a Inl True by (simp add: retry_loop.simps [of client tgt retryCount])
    next
      case False
      then show ?thesis using a Inl e1 by (simp add: retry_loop.simps [of client tgt retryCount])
    qed
  qed
qed

subsection \<open>Counting attempts in the retry loop\<close>

lemma attempt_result: "fst (attempt client tgt n config w) = settle (fst (tgt n))"
  by (simp add: attempt_def Let_def split: sum.splits prod.splits)

lemma attempt_attempts: "attempts (snd (snd (attempt client tgt n config w))) = Suc (attempts w)"
  by (simp add: attempt_def attempts_def requestInterceptor_def responseFulfilled_def
        responseRejected_def Let_def split: sum.splits prod.splits)

lemma beforeRetry_attempts: "attempts (beforeRetry client n err config w) = attempts w"
  by (simp add: beforeRetry_def sleep_def onRetry_def attempts_def)

lemma retry_loop_all_fail:
  "(\<And>k. settle (fst (tgt k)) = Inl err) \<Longrightarrow> rc_retryCondition (axiosRetry client) err \<Longrightarrow>
   int n \<le> rc_retries (axiosRetry client) \<Longrightarrow>
     fst (retry_loop client tgt n config w) = Inl err \<and>
     attempts (snd (retry_loop client tgt n config w))
       = attempts w + nat (rc_retries (axiosRetry client) - int n) + 1"
proof (induction client tgt n config w rule: retry_loop.induct)
  case (1 client tgt retryCount config w)
  obtain r config' w' where a: "attempt client tgt retryCount config w = (r, config', w')"
    by (cases "attempt client tgt retryCount config w") auto
  have r: "r = Inl err"
    using attempt_result [of client tgt retryCount config w] a "1.prems"(1) by simp
  have n: "attempts w' = Suc (attempts w)"
    using attempt_attempts [of client tgt retryCount config w] a by simp
  let ?b = "beforeRetry client (Suc retryCount) err config' w'"
  show ?case
  proof (cases "shouldRetry (axiosRetry client) retryCount err")
    case True
    then have lt: "int (Suc retryCount) \<le> rc_retries (axiosRetry client)"
      by (simp add: shouldRetry_def)
    have ih: "fst (retry_loop client tgt (Suc retryCount) config' ?b) = Inl err \<and>
         attempts (snd (retry_loop client tgt (Suc retryCount) config' ?b))
           = attempts ?b + nat (rc_retries (axiosRetry client) - int (Suc retryCount)) + 1"
      using "1.IH" [OF a [symmetric] r refl True "1.prems"(1) "1.prems"(2) lt] .
    have step: "retry_loop client tgt retryCount config w
                = retry_loop client tgt (Suc retryCount) config' ?b"
      using a r True by (simp add: retry_loop.simps [of client tgt retryCount])
    have arith: "Suc (attempts w) + nat (rc_retries (axiosRetry client) - int (Suc retryCount)) + 1
                 = attempts w + nat (rc_retries (axiosRetry client) - int retryCount) + 1"
      using lt by simp
    show ?thesis using ih step n arith by (simp add: beforeRetry_attempts)
  next
    case False
    then have eq: "rc_retries (axiosRetry client) = int retryCount"
      using "1.prems"(2,3) by (simp add: shouldRetry_def)
    show ?thesis using a r n False eq by (simp add: retry_loop.simps [of client tgt retryCount])
  qed
qed

lemma retry_loop_no_retry:
  "settle (fst (tgt n)) = Inl err \<Longrightarrow> \<not> shouldRetry (axiosRetry client) n err \<Longrightarrow>
     fst (retry_loop client tgt n config w) = Inl err \<and>
     attempts (snd (retry_loop client tgt n config w)) = attempts w + 1"
proof -
  assume s: "settle (fst (tgt n)) = Inl err" and no: "\<not> shouldRetry (axiosRetry client) n err"
  obtain r config' w' where a: "attempt client tgt n config w = (r, config', w')"
    by (cases "attempt client tgt n config w") auto
  have r: "r = Inl err" using attempt_result [of client tgt n config w] a s by simp
  have c: "attempts w' = Suc (attempts w)"
    using attempt_attempts [of client tgt n config w] a by simp
  show ?thesis using a r c no by (simp add: retry_loop.simps [of client tgt n])
qed

lemma retry_loop_success:
  "settle (fst (tgt n)) = Inr resp \<Longrightarrow>
     fst (retry_loop client tgt n config w) = Inr resp \<and>
     attempts (snd (retry_loop client tgt n config w)) = attempts w + 1"
proof -
  assume s: "settle (fst (tgt n)) = Inr resp"
  obtain r config' w' where a: "attempt client tgt n config w = (r, config', w')"
    by (cases "attempt client tgt n config w") auto
  have r: "r = Inr resp" using attempt_result [of client tgt n config w] a s by simp
  have c: "attempts w' = Suc (attempts w)"
    using attempt_attempts [of client tgt n config w] a by simp
  show ?thesis using a r c by (simp add: retry_loop.simps [of client tgt n])
qed

lemma retry_loop_at_least_one:
  "Suc (attempts w) \<le> attempts (snd (retry_loop client tgt n config w))"
proof -
  obtain r config' w' where a: "attempt client tgt n config w = (r, config', w')"
    by (cases "attempt client tgt n config w") auto
  have c: "attempts w' = Suc (attempts w)"
    using attempt_attempts [of client tgt n config w] a by simp
  show ?thesis
  proof (cases r)
    case (Inr resp)
    then show ?thesis using a c by (simp add: retry_loop.simps [of client tgt n])
  next
    case (Inl err)
    let ?b = "beforeRetry client (Suc n) err config' w'"
    have "attempts ?b \<le> attempts (snd (retry_loop client tgt (Suc n) config' ?b))"
      by (rule attempts_mono [OF extends_retry_loop])
    then show ?thesis using a c Inl
      by (simp add: retry_loop.simps [of client tgt n] beforeRetry_attempts)
  qed
qed

lemma retry_loop_retries_once:
  "settle (fst (tgt n)) = Inl err \<Longrightarrow> shouldRetry (axiosRetry client) n err \<Longrightarrow>
     attempts w + 2 \<le> attempts (snd (retry_loop client tgt n config w))"
proof -
  assume s: "settle (fst (tgt n)) = Inl err" and yes: "shouldRetry (axiosRetry client) n err"
  obtain r config' w' where a: "attempt client tgt n config w = (r, config', w')"
    by (cases "attempt client tgt n config w") auto
  have r: "r = Inl err" using attempt_result [of client tgt n config w] a s by simp
  have c: "attempts w' = Suc (attempts w)"
    using attempt_attempts [of client tgt n config w] a by simp
  let ?b = "beforeRetry client (Suc n) err config' w'"
  have step: "retry_loop client tgt n config w = retry_loop client tgt (Suc n) config' ?b"
    using a r yes by (simp add: retry_loop.simps [of client tgt n])
  have "Suc (attempts ?b) \<le> attempts (snd (retry_loop client tgt (Suc n) config' ?b))"
    by (rule retry_loop_at_least_one)
  then show ?thesis using step c by (simp add: beforeRetry_attempts)
qed

subsection \<open>The factory and the backoff delays\<close>

lemma createHttpClient_axiosRetry:
  "axiosRetry (fst (createHttpClient options w)) = retryConfig (retryOf options)"
  by (simp add: createHttpClient_def retryOf_def Let_def)

lemma createHttpClient_world:
  "events (snd (createHttpClient options w)) = events w"
  "store (snd (createHttpClient options w)) = store w"
  "activeSpan (snd (createHttpClient options w)) = activeSpan w"
  "now (snd (createHttpClient options w)) = now w"
  by (simp_all add: createHttpClient_def Let_def)

lemma callThrough_eq:
  "callThrough options config tgt w
     = client_request (fst (createHttpClient options w)) config tgt (snd (createHttpClient options w))"
  by (simp add: callThrough_def split: prod.splits)

lemma attempts_createHttpClient [simp]: "attempts (snd (createHttpClient options w)) = attempts w"
  by (simp add: attempts_def createHttpClient_world)

lemma sleeps_createHttpClient [simp]: "sleeps (snd (createHttpClient options w)) = sleeps w"
  by (simp add: sleeps_def createHttpClient_world)

lemma attempt_sleeps: "sleeps (snd (snd (attempt client tgt n config w))) = sleeps w"
  by (simp add: attempt_def sleeps_def requestInterceptor_def responseFulfilled_def
        responseRejected_def Let_def split: sum.splits prod.splits)

lemma beforeRetry_sleeps:
  "sleeps (beforeRetry client n err config w) = sleeps w @ [rc_retryDelay (axiosRetry client) (int n)]"
  by (simp add: beforeRetry_def sleep_def onRetry_def sleeps_def)

lemma retry_loop_sleeps_all_fail:
  "(\<And>k. settle (fst (tgt k)) = Inl err) \<Longrightarrow> rc_retryCondition (axiosRetry client) err \<Longrightarrow>
   int n \<le> rc_retries (axiosRetry client) \<Longrightarrow>
     sleeps (snd (retry_loop client tgt n config w))
       = sleeps w @ map (\<lambda>k. rc_retryDelay (axiosRetry client) (int k))
                      [Suc n ..< Suc (nat (rc_retries (axiosRetry client)))]"
proof (induction client tgt n config w rule: retry_loop.induct)
  case (1 client tgt retryCount config w)
  obtain r config' w' where a: "attempt client tgt retryCount config w = (r, config', w')"
    by (cases "attempt client tgt retryCount config w") auto
  have r: "r = Inl err"
    using attempt_result [of client tgt retryCount config w] a "1.prems"(1) by simp
  have n: "sleeps w' = sleeps w"
    using attempt_sleeps [of client tgt retryCount config w] a by simp
  let ?b = "beforeRetry client (Suc retryCount) err config' w'"
  let ?R = "nat (rc_retries (axiosRetry client))"
  show ?case
  proof (cases "shouldRetry (axiosRetry client) retryCount err")
    case True
    then have lt: "int (Suc retryCount) \<le> rc_retries (axiosRetry client)"
      by (simp add: shouldRetry_def)
    have ih: "sleeps (snd (retry_loop client tgt (Suc retryCount) config' ?b))
           = sleeps ?b @ map (\<lambda>k. rc_retryDelay (axiosRetry client) (int k)) [Suc (Suc retryCount) ..< Suc ?R]"
      using "1.IH" [OF a [symmetric] r refl True "1.prems"(1) "1.prems"(2) lt] .
    have step: "retry_loop client tgt retryCount config w
                = retry_loop client tgt (Suc retryCount) config' ?b"
      using a r True by (simp add: retry_loop.simps [of client tgt retryCount])
    have le: "Suc retryCount < Suc ?R" using lt by linarith
    have up: "[Suc retryCount ..< Suc ?R] = Suc retryCount # [Suc (Suc retryCount) ..< Suc ?R]"
      using le by (rule upt_conv_Cons)
    show ?thesis using ih step n up by (simp add: beforeRetry_sleeps)
  next
    case False
    then have eq: "rc_retries (axiosRetry client) = int retryCount"
      using "1.prems"(2,3) by (simp add: shouldRetry_def)
    show ?thesis using a r n False eq by (simp add: retry_loop.simps [of client tgt retryCount])
  qed
qed

lemma settle_always: "settle (fst (always s k)) = settle (Reply s)"
  by (simp add: always_def)

lemma backoff_helper:
  "1 \<le> n \<Longrightarrow> retryDelay retry n
     = rat_of_int (case opt_retryDelay retry of None \<Rightarrow> 1000 | Some d \<Rightarrow> d) * 2 ^ nat (n - 1)"
  by (simp add: retryDelay_def power_int_def)

lemma upt_1_4: "[Suc 0 ..< Suc 3] = [1, 2, 3]"
  by (simp add: upt_rec)

lemma sample_trace:
  "sleeps (snd (callThrough (sampleOptions\<lparr>opt_retry := Some (emptyRetry\<lparr>opt_retryDelay := Some 1000\<rparr>)\<rparr>)
                    sampleConfig (always 503) world0)) = [1000, 2000, 4000]"
proof -
  let ?o = "sampleOptions\<lparr>opt_retry := Some (emptyRetry\<lparr>opt_retryDelay := Some 1000\<rparr>)\<rparr>"
  let ?e = "\<lparr> response = Some (AxiosResponse 503), message = ''Request failed'' \<rparr>"
  define c where "c = fst (createHttpClient ?o world0)"
  define v where "v = snd (createHttpClient ?o world0)"
  note cfg = c_def createHttpClient_axiosRetry retryOf_def retryConfig_def emptyRetry_def
  have f: "\<And>k. settle (fst (always 503 k)) = Inl ?e"
    by (simp add: always_def settle_def)
  have k: "rc_retryCondition (axiosRetry c) ?e"
    by (simp add: cfg retryCondition_def defaultRetryStatusCodes_def)
  have n: "int 0 \<le> rc_retries (axiosRetry c)"
    by (simp add: cfg)
  have r3: "nat (rc_retries (axiosRetry c)) = 3"
    by (simp add: cfg)
  have d: "map (\<lambda>k. rc_retryDelay (axiosRetry c) (int k)) [1, 2, 3] = [1000, 2000, 4000]"
    by (simp add: cfg retryDelay_def)
  have s0: "sleeps v = []" by (simp add: v_def sleeps_def createHttpClient_world world0_def)
  have "sleeps (snd (retry_loop c (always 503) 0 cf v))
          = sleeps v @ map (\<lambda>k. rc_retryDelay (axiosRetry c) (int k))
                         [Suc 0 ..< Suc (nat (rc_retries (axiosRetry c)))]" for cf
    by (rule retry_loop_sleeps_all_fail [OF f k n])
  then have "sleeps (snd (retry_loop c (always 503) 0 cf v)) = [1000, 2000, 4000]" for cf
    by (simp only: r3 upt_1_4 d s0 append_Nil)
  then show ?thesis
    by (simp add: callThrough_eq client_request_def c_def v_def)
qed

text \<open>
  Claim C3. For a retry count \<open>n \<ge> 1\<close> the configured delay is the base delay (1000 when
  none is given) times \<open>2 ^ (n - 1)\<close>; it is the delay function of every client the factory
  builds; and a client with base delay 1000 that exhausts its three retries against a target
  that always answers 503 waits 1000, 2000 and 4000 milliseconds, in this order.
\<close>

theorem backoff_schedule:
  "(1 \<le> n \<longrightarrow>
      retryDelay retry n
        = rat_of_int (case opt_retryDelay retry of None \<Rightarrow> 1000 | Some d \<Rightarrow> d) * 2 ^ nat (n - 1))
   \<and> rc_retryDelay (axiosRetry (fst (createHttpClient options w))) = retryDelay (retryOf options)
   \<and> sleeps (snd (callThrough
                     (sampleOptions\<lparr>opt_retry := Some (emptyRetry\<lparr>opt_retryDelay := Some 1000\<rparr>)\<rparr>)
                     sampleConfig (always 503) world0)) = [1000, 2000, 4000]"
  using backoff_helper [of n retry] sample_trace
  by (simp add: createHttpClient_axiosRetry retryConfig_def)

theorem backoff_schedule_witness:
  "(1::int) \<le> 5 \<and> retryDelay (emptyRetry\<lparr>opt_retryDelay := Some 250\<rparr>) 5 = 4000"
  using backoff_schedule [of 5 "emptyRetry\<lparr>opt_retryDelay := Some 250\<rparr>"]
  by (simp add: emptyRetry_def)

subsection \<open>Retry exhaustion\<close>

lemma exhaust_request:
  assumes rc: "axiosRetry client = retryConfig retry"
      and nn: "0 \<le> rc_retries (retryConfig retry)"
      and fail: "\<And>k. settle (fst (tgt k)) = Inl err"
      and cond: "retryCondition retry err"
  shows "fst (client_request client config tgt w) = Inl err \<and>
         attempts (snd (client_request client config tgt w))
           = attempts w + nat (rc_retries (retryConfig retry)) + 1"
proof -
  have c: "rc_retryCondition (axiosRetry client) err" using rc cond by (simp add: retryConfig_def)
  have n: "int 0 \<le> rc_retries (axiosRetry client)" using rc nn by simp
  show ?thesis
    unfolding client_request_def
    using retry_loop_all_fail [of tgt err client 0, OF fail c n] rc by simp
qed

lemma sample_client_retry:
  "axiosRetry (fst (createHttpClient (sampleOptions\<lparr>opt_retry := Some r\<rparr>) w)) = retryConfig r"
  by (simp add: createHttpClient_axiosRetry retryOf_def)




subsection \<open>The retry decision\<close>



subsection \<open>Calls made without any context\<close>

lemma requestInterceptor_no_context:
  "store w = None \<Longrightarrow> activeSpan w = None \<Longrightarrow>
     cfg_headers (fst (requestInterceptor client config w)) = cfg_headers config"
  by (simp add: requestInterceptor_def propagation_inject_def setIfTruthy_def
        getRequestContext_def Let_def)

lemma attempt_config: "fst (snd (attempt client tgt n config w)) = fst (requestInterceptor client config w)"
  by (simp add: attempt_def Let_def split: sum.splits prod.splits)

lemma attempt_wire:
  "wireHeaders (snd (snd (attempt client tgt n config w)))
     = wireHeaders w @ [cfg_headers (fst (requestInterceptor client config w))]"
  by (simp add: attempt_def wireHeaders_def requestInterceptor_def responseFulfilled_def
        responseRejected_def Let_def split: sum.splits prod.splits)

lemma beforeRetry_wire: "wireHeaders (beforeRetry client n err config w) = wireHeaders w"
  by (simp add: beforeRetry_def sleep_def onRetry_def wireHeaders_def)

lemma extends_store: "extends w w' \<Longrightarrow> store w' = store w \<and> activeSpan w' = activeSpan w"
  by (simp add: extends_def)

lemma retry_loop_wire_no_context:
  "store w = None \<Longrightarrow> activeSpan w = None \<Longrightarrow>
     set (wireHeaders (snd (retry_loop client tgt n config w)))
       \<subseteq> set (wireHeaders w) \<union> {cfg_headers config}"
proof (induction client tgt n config w rule: retry_loop.induct)
  case (1 client tgt retryCount config w)
  obtain r config' w' where a: "attempt client tgt retryCount config w = (r, config', w')"
    by (cases "attempt client tgt retryCount config w") auto
  have c: "cfg_headers config' = cfg_headers config"
    using attempt_config [of client tgt retryCount config w] a
          requestInterceptor_no_context [OF "1.prems", of client config] by simp
  have wi: "wireHeaders w' = wireHeaders w @ [cfg_headers config]"
    using attempt_wire [of client tgt retryCount config w] a
          requestInterceptor_no_context [OF "1.prems", of client config] by simp
  have st: "store w' = None \<and> activeSpan w' = None"
    using extends_store [OF extends_attempt [of w client tgt retryCount config]] a "1.prems" by simp
  show ?case
  proof (cases r)
    case (Inr resp)
    then show ?thesis using a wi by (simp add: retry_loop.simps [of client tgt retryCount])
  next
    case (Inl err)
    let ?b = "beforeRetry client (Suc retryCount) err config' w'"
    show ?thesis
    proof (cases "shouldRetry (axiosRetry client) retryCount err")
      case True
      have sb: "store ?b = None" "activeSpan ?b = None"
        using extends_store [OF extends_beforeRetry [of w' client "Suc retryCount" err config']] st
        by simp_all
      have "set (wireHeaders (snd (retry_loop client tgt (Suc retryCount) config' ?b)))
              \<subseteq> set (wireHeaders ?b) \<union> {cfg_headers config'}"
        using "1.IH" [OF a [symmetric] Inl refl True sb] .
      then show ?thesis using a Inl True wi c
        by (auto simp add: retry_loop.simps [of client tgt retryCount] beforeRetry_wire)
    next
      case False
      then show ?thesis using a Inl wi by (simp add: retry_loop.simps [of client tgt retryCount])
    qed
  qed
qed

lemma retry_loop_result_independent:
  "fst (retry_loop client tgt n config w) = fst (retry_loop client tgt n config2 w2)"
proof (induction client tgt n config w arbitrary: config2 w2 rule: retry_loop.induct)
  case (1 client tgt retryCount config w)
  obtain r config' w' where a: "attempt client tgt retryCount config w = (r, config', w')"
    by (cases "attempt client tgt retryCount config w") auto
  obtain r2 c2 v2 where b: "attempt client tgt retryCount config2 w2 = (r2, c2, v2)"
    by (cases "attempt client tgt retryCount config2 w2") auto
  have r: "r = settle (fst (tgt retryCount))"
    using attempt_result [of client tgt retryCount config w] a by simp
  have r2: "r2 = r"
    using attempt_result [of client tgt retryCount config2 w2] b r by simp
  show ?case
  proof (cases r)
    case (Inr resp)
    then show ?thesis using a b r2
      by (simp add: retry_loop.simps [of client tgt retryCount])
  next
    case (Inl err)
    show ?thesis
    proof (cases "shouldRetry (axiosRetry client) retryCount err")
      case True
      have "fst (retry_loop client tgt (Suc retryCount) config' (beforeRetry client (Suc retryCount) err config' w'))
            = fst (retry_loop client tgt (Suc retryCount) c2 (beforeRetry client (Suc retryCount) err c2 v2))"
        using "1.IH" [OF a [symmetric] Inl refl True] .
      then show ?thesis using a b r2 Inl True
        by (simp add: retry_loop.simps [of client tgt retryCount])
    next
      case False
      then show ?thesis using a b r2 Inl
        by (simp add: retry_loop.simps [of client tgt retryCount])
    qed
  qed
qed



subsection \<open>The circuit breaker\<close>

lemma extends_client_request: "extends w (snd (client_request client config tgt w))"
  by (simp add: client_request_def extends_retry_loop)

lemma extends_calls: "extends w (calls k client config tgt w)"
proof (induction k arbitrary: w)
  case 0
  show ?case by simp
next
  case (Suc k)
  show ?case
    using extends_trans [OF extends_client_request Suc.IH] by simp
qed

lemma extends_breakers: "extends w w' \<Longrightarrow> breakers w' = breakers w"
  by (simp add: extends_def)

lemma calls_attempts:
  assumes rc: "axiosRetry client = retryConfig retry"
      and nn: "0 \<le> rc_retries (retryConfig retry)"
      and fail: "\<And>k. settle (fst (tgt k)) = Inl err"
      and cond: "retryCondition retry err"
  shows "attempts (calls k client config tgt w)
           = attempts w + k * (nat (rc_retries (retryConfig retry)) + 1)"
proof (induction k arbitrary: w)
  case 0
  show ?case by simp
next
  case (Suc k)
  show ?case
    using Suc.IH [of "snd (client_request client config tgt w)"]
          exhaust_request [OF rc nn fail cond, where config = config and w = w]
    by simp
qed

lemma sampleClient_retry: "axiosRetry sampleClient = retryConfig emptyRetry"
  by (simp add: sampleClient_def createHttpClient_axiosRetry retryOf_def sampleOptions_def)

lemma sample_fail: "settle (fst (always 503 k)) = Inl failed503"
  by (simp add: always_def settle_def failed503_def)

lemma sample_cond: "retryCondition emptyRetry failed503"
  by (simp add: retryCondition_def failed503_def emptyRetry_def defaultRetryStatusCodes_def)

lemma sample_budget: "0 \<le> rc_retries (retryConfig emptyRetry)" "nat (rc_retries (retryConfig emptyRetry)) = 3"
  by (simp_all add: retryConfig_def emptyRetry_def)

lemma sample_breakers:
  "breakers (snd (createHttpClient sampleOptions world0)) = [newBreaker 30000 emptyBreaker]"
  by (simp add: createHttpClient_def sampleOptions_def world0_def emptyBreaker_def Let_def)

lemma attempts_openAll [simp]: "attempts (openAll w) = attempts w"
  by (simp add: attempts_def openAll_def)

text \<open>
  Claim C1, on the code. The factory builds a closed breaker with threshold 50 and volume
  threshold 10. After ten calls that all failed (40 attempts, every one a 503) the breaker
  is unchanged, and the eleventh call is sent to the target four more times and ends with
  the 503 failure. Even in a world where the breaker has been forced open, a call through
  the returned client goes to the network the same way: nothing on the path of
  \<^verbatim>\<open>client.request\<close> reads the breaker.
\<close>

theorem breaker_is_never_consulted:
  "breakers (snd (createHttpClient sampleOptions world0)) = [newBreaker 30000 emptyBreaker]
   \<and> cb_state (newBreaker 30000 emptyBreaker) = Closed
   \<and> cb_errorThresholdPercentage (newBreaker 30000 emptyBreaker) = 50
   \<and> cb_volumeThreshold (newBreaker 30000 emptyBreaker) = 10
   \<and> attempts tenFailures = 40
   \<and> breakers tenFailures = [newBreaker 30000 emptyBreaker]
   \<and> fst (client_request sampleClient sampleConfig (always 503) tenFailures) = Inl failed503
   \<and> attempts (snd (client_request sampleClient sampleConfig (always 503) tenFailures)) = 44
   \<and> map cb_state (breakers (openAll tenFailures)) = [Open]
   \<and> fst (client_request sampleClient sampleConfig (always 503) (openAll tenFailures)) = Inl failed503
   \<and> attempts (snd (client_request sampleClient sampleConfig (always 503) (openAll tenFailures))) = 44"
proof -
  note ex = exhaust_request [where tgt = "always 503" and err = failed503,
                             OF sampleClient_retry sample_budget(1) sample_fail sample_cond]
  have a0: "attempts world0 = 0"
    by (simp add: attempts_def world0_def)
  have t: "attempts tenFailures = 40"
    unfolding tenFailures_def
    using calls_attempts [where tgt = "always 503" and err = failed503 and k = 10
              and config = sampleConfig and w = "snd (createHttpClient sampleOptions world0)",
            OF sampleClient_retry sample_budget(1) sample_fail sample_cond]
    by (simp add: a0 sample_budget(2))
  have b: "breakers tenFailures = [newBreaker 30000 emptyBreaker]"
    unfolding tenFailures_def
    using extends_breakers [OF extends_calls] sample_breakers by simp
  have c: "fst (client_request sampleClient sampleConfig (always 503) w) = Inl failed503
           \<and> attempts (snd (client_request sampleClient sampleConfig (always 503) w)) = attempts w + 4" for w
    using ex [where config = sampleConfig and w = w] by (simp add: sample_budget(2))
  have o: "map cb_state (breakers (openAll tenFailures)) = [Open]"
    by (simp add: openAll_def b)
  show ?thesis
    using sample_breakers t b c [of tenFailures] c [of "openAll tenFailures"] o
    by (simp add: newBreaker_def emptyBreaker_def)
qed

subsection \<open>The hooks: projections of the trace\<close>

lemma project_emit [simp]: "project f (emit e w) = project f w @ f e"
  by (simp add: project_def)

lemma project_logger_call [simp]:
  "project f (logger_call l obj msg w) = project f w @ f (LoggerCall l obj msg (store w))"
  by (simp add: project_def)

lemma project_updates [simp]:
  "project f (w\<lparr>store := s\<rparr>) = project f w"
  "project f (w\<lparr>now := t\<rparr>) = project f w"
  "project f (w\<lparr>started := k\<rparr>) = project f w"
  "project f (w\<lparr>drawn := d\<rparr>) = project f w"
  by (simp_all add: project_def)

lemma project_als_run [simp]: "project f (als_run ctx g w) = project f (g (w\<lparr>store := Some ctx\<rparr>))"
  by (simp add: project_def als_run_def)

lemma project_extends:
  "extends w w' \<Longrightarrow> (\<And>e. clientEvent e \<Longrightarrow> f e = []) \<Longrightarrow> project f w' = project f w"
proof -
  assume e: "extends w w'" and c: "\<And>e. clientEvent e \<Longrightarrow> f e = []"
  from e obtain es where es: "events w' = events w @ es" "list_all clientEvent es"
    by (auto simp: extends_def)
  have "concat (map f es) = []" using es(2) c by (induction es) auto
  then show ?thesis using es(1) by (simp add: project_def)
qed

lemma extends_run_steps: "extends w (run_steps steps w)"
proof (induction steps w rule: run_steps.induct)
  case (1 w)
  show ?case by simp
next
  case (2 client config tgt rest w)
  show ?case using extends_trans [OF extends_client_request "2.IH"] by simp
next
  case (3 ms rest w)
  have "extends w (w\<lparr>now := now w + ms\<rparr>)" by (simp add: extends_def)
  then show ?case using extends_trans "3.IH" by simp
qed

lemma terminalOf_client: "clientEvent e \<Longrightarrow> terminalOf e = []"
  by (cases e) auto

lemma spanStartOf_client: "clientEvent e \<Longrightarrow> spanStartOf e = []"
  by (cases e) auto

lemma spanEndOf_client: "clientEvent e \<Longrightarrow> spanEndOf e = []"
  by (cases e) auto

lemma serverSignalOf_client: "clientEvent e \<Longrightarrow> serverSignalOf e = []"
  by (cases e) auto

lemma run_steps_silent [simp]:
  "project terminalOf (run_steps steps w) = project terminalOf w"
  "project spanStartOf (run_steps steps w) = project spanStartOf w"
  "project spanEndOf (run_steps steps w) = project spanEndOf w"
  "project serverSignalOf (run_steps steps w) = project serverSignalOf w"
  by (auto intro!: project_extends [OF extends_run_steps]
        simp: terminalOf_client spanStartOf_client spanEndOf_client serverSignalOf_client)

lemma run_steps_fields [simp]:
  "store (run_steps steps w) = store w" "started (run_steps steps w) = started w"
  using extends_run_steps [of w steps] by (simp_all add: extends_def)

lemma onRequest_excluded:
  "isExcluded options request \<Longrightarrow>
     onRequest options request dn w = (request, dn (emit (HookDone OnRequest) w))"
  by (simp add: onRequest_def)

lemma onResponse_no_context:
  "req_requestContext request = None \<Longrightarrow>
     onResponse options request statusCode w = emit (HookDone OnResponse) w"
  by (simp add: onResponse_def)

lemma onError_no_context:
  "req_requestContext request = None \<Longrightarrow>
     onError options request msg w = emit (HookDone OnError) w"
  by (simp add: onError_def)

lemma health_excluded: "isExcluded defaultPlugin healthRequest"
  by (simp add: isExcluded_def excludeRoutes_def defaultPlugin_def healthRequest_def)

lemma report_included: "\<not> isExcluded defaultPlugin reportRequest"
  by (simp add: isExcluded_def excludeRoutes_def defaultPlugin_def reportRequest_def)

lemma uuid_or_header [simp]:
  "project f (snd (case m of None \<Rightarrow> randomUUID w
                   | Some x \<Rightarrow> if x \<noteq> [] then (x, w) else randomUUID w)) = project f w"
  "started (snd (case m of None \<Rightarrow> randomUUID w
                   | Some x \<Rightarrow> if x \<noteq> [] then (x, w) else randomUUID w)) = started w"
  "now (snd (case m of None \<Rightarrow> randomUUID w
                   | Some x \<Rightarrow> if x \<noteq> [] then (x, w) else randomUUID w)) = now w"
  "store (snd (case m of None \<Rightarrow> randomUUID w
                   | Some x \<Rightarrow> if x \<noteq> [] then (x, w) else randomUUID w)) = store w"
  "activeSpan (snd (case m of None \<Rightarrow> randomUUID w
                   | Some x \<Rightarrow> if x \<noteq> [] then (x, w) else randomUUID w)) = activeSpan w"
  by (simp_all add: randomUUID_def project_def split: option.splits)

lemma startSpan_facts [simp]:
  "project f (snd (startSpan name attrs parent w))
     = project f w @ f (SpanStart (started w) name attrs parent)"
  "span_handle (fst (startSpan name attrs parent w)) = started w"
  "started (snd (startSpan name attrs parent w)) = Suc (started w)"
  "now (snd (startSpan name attrs parent w)) = now w"
  "store (snd (startSpan name attrs parent w)) = store w"
  "activeSpan (snd (startSpan name attrs parent w)) = activeSpan w"
  by (simp_all add: startSpan_def project_def Let_def)

lemma included_projections:
  "\<not> isExcluded options request \<Longrightarrow>
     spansOpened (handleRequest options request h w) = spansOpened w @ [started w]
     \<and> spanEnds (handleRequest options request h w) = spanEnds w @ [started w]
     \<and> terminalEvents (handleRequest options request h w)
         = terminalEvents w @ terminalAfter (snd h)"
  by (cases "snd h")
     (simp_all add: handleRequest_def onRequest_def onResponse_def onError_def
        endSpan_def Let_def split_beta terminalEvents_def spansOpened_def spanEnds_def
        terminalAfter_def)

lemma excluded_projections:
  "isExcluded options request \<Longrightarrow> req_requestContext request = None \<Longrightarrow>
     spansOpened (handleRequest options request h w) = spansOpened w
     \<and> spanEnds (handleRequest options request h w) = spanEnds w
     \<and> terminalEvents (handleRequest options request h w) = terminalEvents w"
  by (cases "snd h")
     (simp_all add: handleRequest_def onRequest_excluded onResponse_no_context onError_no_context
        terminalEvents_def spansOpened_def spanEnds_def)

lemma world0_projections:
  "spansOpened world0 = []" "spanEnds world0 = []" "terminalEvents world0 = []"
  "serverSignals world0 = []" "started world0 = 0"
  by (simp_all add: spansOpened_def spanEnds_def terminalEvents_def serverSignals_def
        project_def world0_def)

lemma health_fresh: "req_requestContext healthRequest = None"
  by (simp add: healthRequest_def)

subsection \<open>Excluded routes\<close>

text \<open>
  Claim C7. For a request whose URL starts with an excluded prefix, and which reaches the
  hooks as the framework made it (no request context on it), handling it is the handler's
  own run followed by the reply, with nothing from the plugin in between but the three
  \<^verbatim>\<open>done()\<close> calls: no span event and no HTTP server metric is added to the trace, each hook
  returns after calling \<^verbatim>\<open>done()\<close>, and the reply is sent.
\<close>

theorem excluded_route_is_left_alone:
  "isExcluded options request \<Longrightarrow> req_requestContext request = None \<Longrightarrow>
     handleRequest options request h w
       = afterHandler (snd h) (run_steps (fst h) (emit (HookDone OnRequest) w))
     \<and> serverSignals (handleRequest options request h w) = serverSignals w
     \<and> onRequest options request dn w = (request, dn (emit (HookDone OnRequest) w))
     \<and> onResponse options request statusCode w = emit (HookDone OnResponse) w
     \<and> onError options request msg w = emit (HookDone OnError) w"
proof -
  assume x: "isExcluded options request" and n: "req_requestContext request = None"
  have 1: "handleRequest options request h w
       = afterHandler (snd h) (run_steps (fst h) (emit (HookDone OnRequest) w))"
    by (cases "snd h")
       (simp_all add: handleRequest_def onRequest_excluded [OF x] onResponse_no_context [OF n]
          onError_no_context [OF n] afterHandler_def)
  have 2: "serverSignals (handleRequest options request h w) = serverSignals w"
    unfolding 1 by (cases "snd h") (simp_all add: afterHandler_def serverSignals_def)
  show ?thesis
    using 1 2 onRequest_excluded [OF x] onResponse_no_context [OF n] onError_no_context [OF n]
    by simp
qed

theorem excluded_route_is_left_alone_witness:
  "handleRequest defaultPlugin healthRequest sampleHandler world0
     = afterHandler (Replies 200)
         (run_steps [Outbound sampleClient sampleConfig (always 200)] (emit (HookDone OnRequest) world0))
   \<and> serverSignals (handleRequest defaultPlugin healthRequest sampleHandler world0) = []
   \<and> ResponseSent 200 \<in> set (events (handleRequest defaultPlugin healthRequest sampleHandler world0))"
proof -
  note t = excluded_route_is_left_alone [OF health_excluded health_fresh,
             where h = sampleHandler and w = world0 and dn = id and statusCode = 200
               and msg = "[]"]
  have e: "handleRequest defaultPlugin healthRequest sampleHandler world0
     = afterHandler (Replies 200)
         (run_steps [Outbound sampleClient sampleConfig (always 200)] (emit (HookDone OnRequest) world0))"
    using t [THEN conjunct1] by (simp add: sampleHandler_def)
  have s: "serverSignals (handleRequest defaultPlugin healthRequest sampleHandler world0) = []"
    using t [THEN conjunct2, THEN conjunct1] by (simp add: world0_projections)
  have r: "ResponseSent 200 \<in> set (events (handleRequest defaultPlugin healthRequest sampleHandler world0))"
    unfolding e by (simp add: afterHandler_def)
  show ?thesis using e s r by blast
qed

subsection \<open>Terminal events and the closing of the span\<close>

text \<open>
  Claim C6, as amended. For a request that is not excluded, one span is opened and it is
  ended exactly once, by the response hook, whether the handler replied or raised. A
  handler that replied leaves one terminal log message, \<open>Request completed\<close>; a handler that
  raised leaves \<open>Request failed\<close> from the error hook and then \<open>Request completed\<close> from the
  response hook, which runs once the error reply is sent. For an excluded request no span
  is opened or ended and no terminal message is logged.
\<close>

theorem terminal_events_and_span_closure:
  "(\<not> isExcluded options request \<longrightarrow>
      spansOpened (handleRequest options request h w) = spansOpened w @ [started w]
      \<and> spanEnds (handleRequest options request h w) = spanEnds w @ [started w]
      \<and> terminalEvents (handleRequest options request h w)
          = terminalEvents w @ terminalAfter (snd h))
   \<and> (isExcluded options request \<and> req_requestContext request = None \<longrightarrow>
      spansOpened (handleRequest options request h w) = spansOpened w
      \<and> spanEnds (handleRequest options request h w) = spanEnds w
      \<and> terminalEvents (handleRequest options request h w) = terminalEvents w)"
  using included_projections [of options request h w] excluded_projections [of options request h w]
  by blast

theorem terminal_events_and_span_closure_witness:
  "spansOpened (handleRequest defaultPlugin reportRequest sampleHandler world0) = [0]
   \<and> spanEnds (handleRequest defaultPlugin reportRequest sampleHandler world0) = [0]
   \<and> terminalEvents (handleRequest defaultPlugin reportRequest sampleHandler world0)
       = [''Request completed'']
   \<and> spansOpened (handleRequest defaultPlugin healthRequest sampleHandler world0) = []
   \<and> spanEnds (handleRequest defaultPlugin healthRequest sampleHandler world0) = []"
  using terminal_events_and_span_closure [of defaultPlugin reportRequest sampleHandler world0]
        terminal_events_and_span_closure [of defaultPlugin healthRequest sampleHandler world0]
        report_included health_excluded health_fresh
  by (simp add: world0_projections terminalAfter_def sampleHandler_def)

text \<open>An excluded request logs no terminal event at all, and a request whose handler raised
  logs both of them.\<close>

theorem excluded_and_failed_requests_break_the_count:
  "terminalEvents (handleRequest defaultPlugin healthRequest sampleHandler world0) = []
   \<and> terminalEvents (handleRequest defaultPlugin reportRequest failingHandler world0)
       = [''Request failed'', ''Request completed'']"
  using included_projections [OF report_included, of failingHandler world0]
        excluded_projections [OF health_excluded health_fresh, of sampleHandler world0]
  by (simp add: world0_projections terminalAfter_def failingHandler_def)

subsection \<open>Order of the signals in the response hook\<close>

lemma events_als_run [simp]: "events (als_run ctx g w) = events (g (w\<lparr>store := Some ctx\<rparr>))"
  by (simp add: als_run_def)

text \<open>
  Claim C8. For a request that carries the context and the span that \<^verbatim>\<open>onRequest\<close> put on
  it, the response hook adds to the trace, in this order: the \<open>Request completed\<close> log, the
  request counter, the duration histogram, the error counter when the status is 400 or
  more, the span's status and attributes, the end of the span, and \<^verbatim>\<open>done()\<close>. The log,
  the histogram and the span attribute carry one and the same duration, the clock read once
  minus the start time. Every request that is not excluded leaves \<^verbatim>\<open>onRequest\<close> with that
  context (its start time the clock at that moment) and that span.
\<close>

theorem completion_precedes_span_end:
  "(req_requestContext request = Some ctx \<and> req_span request = Some sp \<longrightarrow>
      events (onResponse options request statusCode w)
        = events w
          @ [LoggerCall Info
               [(''correlationId'', Str (ctx_correlationId ctx)),
                (''traceId'', Str (ctx_traceId ctx)),
                (''spanId'', Str (ctx_spanId ctx)),
                (''method'', Str (req_method request)),
                (''url'', Str (req_url request)),
                (''route'', Str (orElse (req_routeUrl request) (req_url request))),
                (''statusCode'', Num statusCode),
                (''durationMs'', Num (now w - ctx_startTime ctx))]
               ''Request completed''
               (Some (storeOf (ctx_correlationId ctx) (ctx_traceId ctx) (ctx_spanId ctx))),
             CounterAdd ''http.server.requests.total'' 1 (serverLabels request statusCode),
             HistogramRecord ''http.server.request.duration'' (now w - ctx_startTime ctx)
               (serverLabels request statusCode)]
          @ (if statusCode \<ge> 400
             then [CounterAdd ''http.server.requests.errors'' 1 (serverLabels request statusCode)]
             else [])
          @ [SpanSetStatus (span_handle sp) (if statusCode < 400 then OK else ERROR) None,
             SpanSetAttribute (span_handle sp) ''http.status_code'' (Num statusCode),
             SpanSetAttribute (span_handle sp) ''http.response_time_ms''
               (Num (now w - ctx_startTime ctx)),
             SpanEnd (span_handle sp),
             HookDone OnResponse])
   \<and> (\<not> isExcluded options request \<longrightarrow>
        map_option ctx_startTime (req_requestContext (fst (onRequest options request dn w)))
          = Some (now w)
        \<and> map_option span_handle (req_span (fst (onRequest options request dn w)))
          = Some (started w))"
  by (simp add: onResponse_def onRequest_def endSpan_def Let_def split_beta)

theorem completion_precedes_span_end_witness:
  "map_option ctx_startTime (req_requestContext (fst (onRequest defaultPlugin reportRequest id world0)))
     = Some 0
   \<and> map_option span_handle (req_span (fst (onRequest defaultPlugin reportRequest id world0)))
     = Some 0
   \<and> events (onResponse defaultPlugin
        (reportRequest\<lparr>req_span := Some \<lparr>span_handle = 0, span_context = sampleSpan\<rparr>,
           req_requestContext := Some \<lparr>ctx_correlationId = ''req-1'',
              ctx_traceId = ''0af7651916cd43dd8448eb211c80319c'',
              ctx_spanId = ''b7ad6b7169203331'', ctx_startTime = 0\<rparr>\<rparr>)
        200 (world0\<lparr>now := 150\<rparr>))
     = [LoggerCall Info
               [(''correlationId'', Str ''req-1''),
                (''traceId'', Str ''0af7651916cd43dd8448eb211c80319c''),
                (''spanId'', Str ''b7ad6b7169203331''),
                (''method'', Str ''GET''),
                (''url'', Str ''/api/v1/reports''),
                (''route'', Str ''/api/v1/reports''),
                (''statusCode'', Num 200),
                (''durationMs'', Num 150)]
               ''Request completed''
               (Some (storeOf ''req-1'' ''0af7651916cd43dd8448eb211c80319c'' ''b7ad6b7169203331'')),
        CounterAdd ''http.server.requests.total'' 1
          [(''method'', Str ''GET''), (''route'', Str ''/api/v1/reports''), (''status_code'', Num 200)],
        HistogramRecord ''http.server.request.duration'' 150
          [(''method'', Str ''GET''), (''route'', Str ''/api/v1/reports''), (''status_code'', Num 200)],
        SpanSetStatus 0 OK None,
        SpanSetAttribute 0 ''http.status_code'' (Num 200),
        SpanSetAttribute 0 ''http.response_time_ms'' (Num 150),
        SpanEnd 0,
        HookDone OnResponse]"
  using completion_precedes_span_end
          [where request = "reportRequest\<lparr>req_span := Some \<lparr>span_handle = 0, span_context = sampleSpan\<rparr>,
           req_requestContext := Some \<lparr>ctx_correlationId = ''req-1'',
              ctx_traceId = ''0af7651916cd43dd8448eb211c80319c'',
              ctx_spanId = ''b7ad6b7169203331'', ctx_startTime = 0\<rparr>\<rparr>"
           and ctx = "\<lparr>ctx_correlationId = ''req-1'',
              ctx_traceId = ''0af7651916cd43dd8448eb211c80319c'',
              ctx_spanId = ''b7ad6b7169203331'', ctx_startTime = 0\<rparr>"
           and sp = "\<lparr>span_handle = 0, span_context = sampleSpan\<rparr>"
           and options = defaultPlugin and statusCode = 200 and w = "world0\<lparr>now := 150\<rparr>"]
        completion_precedes_span_end
          [where request = reportRequest and options = defaultPlugin and w = world0 and dn = id]
        report_included
  by (simp add: world0_def reportRequest_def serverLabels_def orElse_def)

subsection \<open>Propagation of the request identity to outbound calls\<close>

lemma wireHeaders_project: "wireHeaders w = project wireOf w"
  by (simp add: wireHeaders_def project_def)

lemma requestInterceptor_carries:
  "carries (store v) (activeSpan v) (cfg_headers (fst (requestInterceptor cl cfg v)))"
  by (cases "store v"; cases "activeSpan v")
     (auto simp: carries_def requestInterceptor_def propagation_inject_def setIfTruthy_def
        getRequestContext_def traceparentOf_def Let_def update_conv'
        split: option.splits)

lemma retry_loop_carries:
  "set (wireHeaders (snd (retry_loop client tgt n config w)))
     \<subseteq> set (wireHeaders w) \<union> Collect (carries (store w) (activeSpan w))"
proof (induction client tgt n config w rule: retry_loop.induct)
  case (1 client tgt retryCount config w)
  obtain r config' w' where a: "attempt client tgt retryCount config w = (r, config', w')"
    by (cases "attempt client tgt retryCount config w") auto
  have wi: "wireHeaders w' = wireHeaders w @ [cfg_headers (fst (requestInterceptor client config w))]"
    using attempt_wire [of client tgt retryCount config w] a by simp
  have st: "store w' = store w \<and> activeSpan w' = activeSpan w"
    using extends_store [OF extends_attempt [of w client tgt retryCount config]] a by simp
  have base: "set (wireHeaders w') \<subseteq> set (wireHeaders w) \<union> Collect (carries (store w) (activeSpan w))"
    using wi requestInterceptor_carries [of w client config] by auto
  show ?case
  proof (cases r)
    case (Inr resp)
    then show ?thesis using a base by (simp add: retry_loop.simps [of client tgt retryCount])
  next
    case (Inl err)
    let ?b = "beforeRetry client (Suc retryCount) err config' w'"
    show ?thesis
    proof (cases "shouldRetry (axiosRetry client) retryCount err")
      case True
      have sb: "store ?b = store w" "activeSpan ?b = activeSpan w"
        using extends_store [OF extends_beforeRetry [of w' client "Suc retryCount" err config']] st
        by simp_all
      have "set (wireHeaders (snd (retry_loop client tgt (Suc retryCount) config' ?b)))
              \<subseteq> set (wireHeaders ?b) \<union> Collect (carries (store ?b) (activeSpan ?b))"
        using "1.IH" [OF a [symmetric] Inl refl True] .
      then have "set (wireHeaders (snd (retry_loop client tgt (Suc retryCount) config' ?b)))
              \<subseteq> set (wireHeaders w) \<union> Collect (carries (store w) (activeSpan w))"
        using base by (simp add: sb beforeRetry_wire) blast
      then show ?thesis using a Inl True
        by (simp add: retry_loop.simps [of client tgt retryCount])
    next
      case False
      then show ?thesis using a Inl base by (simp add: retry_loop.simps [of client tgt retryCount])
    qed
  qed
qed

lemma run_steps_carries:
  "set (project wireOf (run_steps steps v))
     \<subseteq> set (project wireOf v) \<union> Collect (carries (store v) (activeSpan v))"
proof (induction steps v rule: run_steps.induct)
  case (1 w)
  show ?case by simp
next
  case (2 client config tgt rest w)
  let ?v = "snd (client_request client config tgt w)"
  have st: "store ?v = store w \<and> activeSpan ?v = activeSpan w"
    by (rule extends_store [OF extends_client_request])
  have c: "set (project wireOf ?v) \<subseteq> set (project wireOf w) \<union> Collect (carries (store w) (activeSpan w))"
    using retry_loop_carries [of client tgt 0 _ w]
    by (simp add: client_request_def wireHeaders_project)
  show ?case using "2.IH" c st by simp blast
next
  case (3 ms rest w)
  have "project wireOf (w\<lparr>now := now w + ms\<rparr>) = project wireOf w" by simp
  then show ?case using "3.IH" by simp
qed

lemma splitOn_plain: "c \<notin> set xs \<Longrightarrow> splitOn c xs = [xs]"
  by (induction xs) auto

lemma splitOn_field: "c \<notin> set xs \<Longrightarrow> splitOn c (xs @ c # rest) = xs # splitOn c rest"
  by (induction xs) (auto split: list.splits)

lemma parseTraceParent_w3c:
  "CHR ''-'' \<notin> set tid \<Longrightarrow> CHR ''-'' \<notin> set sid \<Longrightarrow>
     parseTraceParent (''00-'' @ tid @ ''-'' @ sid @ ''-01'')
       = Some \<lparr> sc_traceId = tid, sc_spanId = sid, sc_traceFlags = ''01'', sc_traceState = None \<rparr>"
proof -
  assume t: "CHR ''-'' \<notin> set tid" and s: "CHR ''-'' \<notin> set sid"
  have 1: "splitOn CHR ''-'' (''00-'' @ tid @ ''-'' @ sid @ ''-01'')
             = ''00'' # splitOn CHR ''-'' (tid @ ''-'' @ sid @ ''-01'')"
    using splitOn_field [of "CHR ''-''" "''00''" "tid @ ''-'' @ sid @ ''-01''"] by simp
  have 2: "splitOn CHR ''-'' (tid @ ''-'' @ sid @ ''-01'') = tid # splitOn CHR ''-'' (sid @ ''-01'')"
    using splitOn_field [OF t, of "sid @ ''-01''"] by simp
  have 3: "splitOn CHR ''-'' (sid @ ''-01'') = sid # splitOn CHR ''-'' ''01''"
    using splitOn_field [OF s, of "''01''"] by simp
  have 4: "splitOn CHR ''-'' ''01'' = [''01'']" by (rule splitOn_plain) simp
  show ?thesis by (simp only: parseTraceParent_def 1 2 3 4) simp
qed

lemma onRequest_context:
  "\<not> isExcluded options request \<Longrightarrow>
     map_of (req_headers request) ''traceparent'' = Some (''00-'' @ tid @ ''-'' @ sid @ ''-01'') \<Longrightarrow>
     CHR ''-'' \<notin> set tid \<Longrightarrow> CHR ''-'' \<notin> set sid \<Longrightarrow>
     map_option ctx_traceId (req_requestContext (fst (onRequest options request dn w))) = Some tid"
  using parseTraceParent_w3c [of tid sid]
  by (simp add: onRequest_def startSpan_def propagation_extract_def Let_def split_beta)

lemma wire_length: "length (wireHeaders w) = attempts w"
proof -
  have "length (concat (map wireOf es)) = length (filter isNetworkIO es)" for es
  proof (induction es)
    case Nil
    show ?case by simp
  next
    case (Cons e es)
    then show ?case by (cases e) simp_all
  qed
  then show ?thesis by (simp add: wireHeaders_def attempts_def)
qed

lemma singleton_list: "length xs = 1 \<Longrightarrow> set xs \<subseteq> {a} \<Longrightarrow> xs = [a]"
  by (cases xs) auto

lemma excluded_handling:
  "isExcluded options request \<Longrightarrow> req_requestContext request = None \<Longrightarrow>
     handleRequest options request h w
       = afterHandler (snd h) (run_steps (fst h) (emit (HookDone OnRequest) w))"
  by (cases "snd h")
     (simp_all add: handleRequest_def onRequest_excluded onResponse_no_context
        onError_no_context afterHandler_def)

lemma sampleClient_headers:
  "mergeHeaders (defaultHeaders sampleClient) (cfg_headers sampleConfig)
     = [(''Content-Type'', ''application/json'')]"
  by (simp add: sampleClient_def createHttpClient_def sampleOptions_def sampleConfig_def
        mergeHeaders_def Let_def)




subsection \<open>The logger before initialisation\<close>

lemma logger_apply_uninitialised: "baseLogger m = None \<Longrightarrow> logger_apply c m = Inr m"
  by (cases c) (simp_all add: logger_info_def logger_error_def logger_warn_def logger_debug_def)

lemma logger_run_uninitialised: "baseLogger m = None \<Longrightarrow> logger_run cs m = Inr m"
  by (induction cs) (simp_all add: logger_apply_uninitialised)

text \<open>
  Claim C10. Whatever calls of \<^verbatim>\<open>logger.info\<close>, \<^verbatim>\<open>logger.error\<close>, \<^verbatim>\<open>logger.warn\<close> and
  \<^verbatim>\<open>logger.debug\<close> a program makes before \<^verbatim>\<open>init()\<close> has run, each of them returns
  normally (no error value arises) and the module state, with the empty list of written
  lines, is what it was: nothing is emitted.
\<close>

theorem logger_silent_before_init: "logger_run ops module0 = Inr module0"
  by (rule logger_run_uninitialised) (simp add: module0_def)

lemma logger_writes_after_init:
  "logger_info (init None module0) obj msg
     = Inr ((init None module0)\<lparr>written := written (init None module0) @ [(Info, obj, msg)]\<rparr>)"
  by (simp add: logger_info_def init_def module0_def pino_write_def Let_def)

subsection \<open>The earlier snapshot\<close>

text \<open>In the earlier snapshot the delays grow linearly, 429 is not retried while 501 is, and
  a logger call before \<^verbatim>\<open>init()\<close> raises.\<close>

lemma retryDelay_v1_linear:
  "map (retryDelay_v1 \<lparr> v1_retries = None, v1_delay = Some 1000 \<rparr>) [1, 2, 3] = [1000, 2000, 3000]"
  by (simp add: retryDelay_v1_def)

lemma retryCondition_v1_by_class:
  "\<not> retryCondition_v1 \<lparr> response = Some (AxiosResponse 429), message = ''Request failed'' \<rparr>
   \<and> retryCondition_v1 \<lparr> response = Some (AxiosResponse 501), message = ''Request failed'' \<rparr>
   \<and> retryCondition emptyRetry \<lparr> response = Some (AxiosResponse 429), message = ''Request failed'' \<rparr>
   \<and> \<not> retryCondition emptyRetry \<lparr> response = Some (AxiosResponse 501), message = ''Request failed'' \<rparr>"
  by (simp add: retryCondition_v1_def retryCondition_def emptyRetry_def defaultRetryStatusCodes_def)

lemma logger_v1_raises_before_init:
  "logger_v1 l module0 obj msg = Inl (TypeError ''Cannot read properties of undefined'')"
  by (simp add: logger_v1_def module0_def)

end
